theory Spec2Isabelle
  imports Main "HOL-Library.Sublist"
begin

section \<open>JavaScript strings\<close>

text \<open>
  A JavaScript string is modelled as a \<^typ>\<open>string\<close>, read as the UTF-8 bytes of the
  text. \<open>s.includes(t)\<close> is the contiguous-substring test; on well-formed text it gives
  the same answer on UTF-8 bytes as on UTF-16 code units.
\<close>

fun str_includes :: "string \<Rightarrow> string \<Rightarrow> bool" where
  "str_includes [] t = (t = [])"
| "str_includes (c # s) t = (prefix t (c # s) \<or> str_includes s t)"

section \<open>Platform detection\<close>

text \<open>
  \<^verbatim>\<open>
  private supportedPlatforms = [ 'youtube.com', 'youtu.be', 'tiktok.com', ... , 'dai.ly' ];

  detectPlatform(url: string): string {
    const domain = this.supportedPlatforms.find(platform => url.includes(platform));
    if (!domain) { throw new Error('Unsupported platform'); }
    if (domain.includes('youtube') || domain.includes('youtu.be')) return 'YouTube';
    ...
    return 'Unknown';
  }
  \<close>
\<close>

definition supportedPlatforms :: "string list" where
  "supportedPlatforms =
     [''youtube.com'', ''youtu.be'', ''tiktok.com'', ''instagram.com'', ''facebook.com'',
      ''twitter.com'', ''x.com'', ''vimeo.com'', ''reddit.com'', ''linkedin.com'',
      ''pinterest.com'', ''pin.it'', ''dailymotion.com'', ''dai.ly'']"

datatype error = UnsupportedPlatform

text \<open>The chain of \<open>if (domain.includes(...)) return ...\<close> with its trailing return.\<close>

definition platformName :: "string \<Rightarrow> string" where
  "platformName domain =
     (if str_includes domain ''youtube'' \<or> str_includes domain ''youtu.be'' then ''YouTube''
      else if str_includes domain ''tiktok'' then ''TikTok''
      else if str_includes domain ''instagram'' then ''Instagram''
      else if str_includes domain ''facebook'' then ''Facebook''
      else if str_includes domain ''twitter'' \<or> str_includes domain ''x.com'' then ''Twitter/X''
      else if str_includes domain ''vimeo'' then ''Vimeo''
      else if str_includes domain ''reddit'' then ''Reddit''
      else if str_includes domain ''linkedin'' then ''LinkedIn''
      else if str_includes domain ''pinterest'' \<or> str_includes domain ''pin.it'' then ''Pinterest''
      else if str_includes domain ''dailymotion'' \<or> str_includes domain ''dai.ly'' then ''Dailymotion''
      else ''Unknown'')"

definition detectPlatform :: "string \<Rightarrow> error + string" where
  "detectPlatform url =
     (case List.find (\<lambda>platform. str_includes url platform) supportedPlatforms of
        None \<Rightarrow> Inl UnsupportedPlatform
      | Some domain \<Rightarrow> Inr (platformName domain))"

text \<open>
  The table the specification describes: every supported domain with the canonical name
  of its platform, a short-link domain carrying the name of the platform it abbreviates.
\<close>

definition canonicalPlatform :: "(string \<times> string) list" where
  "canonicalPlatform =
     [(''youtube.com'', ''YouTube''), (''youtu.be'', ''YouTube''), (''tiktok.com'', ''TikTok''),
      (''instagram.com'', ''Instagram''), (''facebook.com'', ''Facebook''),
      (''twitter.com'', ''Twitter/X''), (''x.com'', ''Twitter/X''), (''vimeo.com'', ''Vimeo''),
      (''reddit.com'', ''Reddit''), (''linkedin.com'', ''LinkedIn''),
      (''pinterest.com'', ''Pinterest''), (''pin.it'', ''Pinterest''),
      (''dailymotion.com'', ''Dailymotion''), (''dai.ly'', ''Dailymotion'')]"

definition canonicalNames :: "string list" where
  "canonicalNames =
     [''YouTube'', ''TikTok'', ''Instagram'', ''Facebook'', ''Twitter/X'', ''Vimeo'',
      ''Reddit'', ''LinkedIn'', ''Pinterest'', ''Dailymotion'']"

section \<open>Quality options\<close>

text \<open>
  \<open>QualityOption\<close> of the shared schema; its optional \<open>url\<close> field is never written by
  the server and is left out.
\<close>

record QualityOption =
  quality :: string
  format :: string
  fileSize :: string

text \<open>
  One entry of the \<open>formats\<close> array of the tool's JSON. The tool reports \<open>height\<close>,
  \<open>filesize\<close> and \<open>filesize_approx\<close> as non-negative whole numbers or leaves them out
  (\<open>null\<close>); \<open>None\<close> stands for a missing or null field.
\<close>

record StreamFormat =
  height :: "nat option"
  vcodec :: "string option"
  ext :: "string option"
  filesize :: "nat option"
  filesize_approx :: "nat option"

subsection \<open>Numbers and text\<close>

text \<open>A template literal prints a whole number in decimal.\<close>

definition digitChar :: "nat \<Rightarrow> char" where
  "digitChar d = ''0123456789'' ! d"

fun showNat :: "nat \<Rightarrow> string" where
  "showNat n = (if n < 10 then [digitChar n] else showNat (n div 10) @ [digitChar (n mod 10)])"

declare showNat.simps [simp del]

text \<open>
  \<open>parseInt(s.replace(/\D/g, '')) || 0\<close>: the decimal value of the ASCII digits of \<open>s\<close>,
  and \<open>0\<close> when there is none (\<open>parseInt('')\<close> is \<open>NaN\<close>).
\<close>

definition isDigit :: "char \<Rightarrow> bool" where
  "isDigit c = (48 \<le> (of_char c :: nat) \<and> (of_char c :: nat) \<le> 57)"

definition digitsValue :: "string \<Rightarrow> nat" where
  "digitsValue s = foldl (\<lambda>acc c. 10 * acc + ((of_char c :: nat) - 48)) 0 s"

definition labelResolution :: "string \<Rightarrow> nat" where
  "labelResolution label = digitsValue (filter isDigit label)"

subsection \<open>An insertion-ordered Map\<close>

text \<open>
  A JavaScript \<open>Map\<close> keeps its keys in insertion order: \<open>set\<close> on a key that is present
  replaces the value in place, on a new key it appends.
\<close>

fun mapSet :: "'k \<Rightarrow> 'v \<Rightarrow> ('k \<times> 'v) list \<Rightarrow> ('k \<times> 'v) list" where
  "mapSet k v [] = [(k, v)]"
| "mapSet k v ((k', v') # m) = (if k' = k then (k, v) # m else (k', v') # mapSet k v m)"

subsection \<open>Sorting with a comparator\<close>

text \<open>
  \<open>Array.prototype.sort(compare)\<close>, as a stable insertion sort: an element goes in front
  of the first one it does not have to follow. On the entries of a quality map the
  comparator below is a strict total order, so every comparison sort returns the same
  list.
\<close>

fun insertBy :: "('a \<Rightarrow> 'a \<Rightarrow> int) \<Rightarrow> 'a \<Rightarrow> 'a list \<Rightarrow> 'a list" where
  "insertBy cmp x [] = [x]"
| "insertBy cmp x (y # ys) = (if cmp x y \<le> 0 then x # y # ys else y # insertBy cmp x ys)"

definition sortBy :: "('a \<Rightarrow> 'a \<Rightarrow> int) \<Rightarrow> 'a list \<Rightarrow> 'a list" where
  "sortBy cmp xs = foldr (insertBy cmp) xs []"

subsection \<open>extractQualities\<close>

text \<open>
  \<open>formatFileSize\<close> returns \<open>'Unknown'\<close> for a falsy size and otherwise prints the size
  with a floating-point logarithm and \<open>toFixed\<close>; that printing is the parameter
  \<open>render\<close>.
\<close>

definition formatFileSize :: "(nat \<Rightarrow> string) \<Rightarrow> nat \<Rightarrow> string" where
  "formatFileSize render bytes = (if bytes = 0 then ''Unknown'' else render bytes)"

definition declaredSize :: "(nat \<Rightarrow> string) \<Rightarrow> StreamFormat \<Rightarrow> string" where
  "declaredSize render f =
     (case filesize f of
        Some n \<Rightarrow>
          (if n \<noteq> 0 then formatFileSize render n
           else (case filesize_approx f of
                   Some a \<Rightarrow> (if a \<noteq> 0 then formatFileSize render a else ''Unknown'')
                 | None \<Rightarrow> ''Unknown''))
      | None \<Rightarrow>
          (case filesize_approx f of
             Some a \<Rightarrow> (if a \<noteq> 0 then formatFileSize render a else ''Unknown'')
           | None \<Rightarrow> ''Unknown''))"

definition qualityLabel :: "nat \<Rightarrow> string" where
  "qualityLabel h =
     (if 2160 \<le> h then ''4K (2160p)''
      else if 1440 \<le> h then ''2K (1440p)''
      else if 1080 \<le> h then ''1080p HD''
      else if 720 \<le> h then ''720p HD''
      else showNat h @ ''p'')"

definition audioOnly :: QualityOption where
  "audioOnly = \<lparr>quality = ''Audio Only'', format = ''mp3'', fileSize = ''Variable''\<rparr>"

text \<open>The body of \<open>formats.forEach(format => ...)\<close>, on the map it updates.\<close>

definition addFormat ::
  "(nat \<Rightarrow> string) \<Rightarrow> StreamFormat \<Rightarrow> (string \<times> QualityOption) list
     \<Rightarrow> (string \<times> QualityOption) list" where
  "addFormat render f qualityMap =
     (case height f of
        None \<Rightarrow> qualityMap
      | Some h \<Rightarrow>
          if h = 0 \<or> vcodec f = Some ''none'' then qualityMap
          else
            let e = (case ext f of Some x \<Rightarrow> x | None \<Rightarrow> ''mp4'');
                q = qualityLabel h;
                sz = declaredSize render f;
                entry = \<lparr>quality = q, format = e, fileSize = sz\<rparr>
            in (case map_of qualityMap q of
                  None \<Rightarrow> mapSet q entry qualityMap
                | Some existing \<Rightarrow>
                    if (fileSize existing = ''Unknown'' \<and> sz \<noteq> ''Unknown'')
                       \<or> (e = ''mp4'' \<and> format existing \<noteq> ''mp4'')
                    then mapSet q entry qualityMap
                    else qualityMap))"

definition compareQuality :: "QualityOption \<Rightarrow> QualityOption \<Rightarrow> int" where
  "compareQuality a b =
     (if quality a = ''Audio Only'' then 1
      else if quality b = ''Audio Only'' then - 1
      else int (labelResolution (quality b)) - int (labelResolution (quality a)))"

definition qualityMapOf ::
  "(nat \<Rightarrow> string) \<Rightarrow> StreamFormat list \<Rightarrow> (string \<times> QualityOption) list" where
  "qualityMapOf render formats = fold (addFormat render) formats [(''audio'', audioOnly)]"

definition extractQualities :: "(nat \<Rightarrow> string) \<Rightarrow> StreamFormat list \<Rightarrow> QualityOption list" where
  "extractQualities render formats =
     sortBy compareQuality (map snd (qualityMapOf render formats))"

subsection \<open>The background merge of a probe into the cached list\<close>

text \<open>
  \<^verbatim>\<open>
  const map = new Map<string, any>();
  for (const p of probed) { map.set(p.quality, { ...p }); }
  for (const q of orig) {
    if (!map.has(q.quality)) { map.set(q.quality, q); }
    else {
      const current = map.get(q.quality);
      if (!current.fileSize || current.fileSize === 'Unknown') { current.fileSize = q.fileSize; }
      if (!current.format && q.format) { current.format = q.format; }
      map.set(q.quality, current);
    }
  }
  const merged = Array.from(map.values());
  \<close>
  The empty string is the falsy string. The caller runs this only for a probe result that
  is not empty.
\<close>

definition overlay :: "QualityOption \<Rightarrow> QualityOption \<Rightarrow> QualityOption" where
  "overlay current q =
     (let c1 = (if fileSize current = [] \<or> fileSize current = ''Unknown''
                then current\<lparr>fileSize := fileSize q\<rparr> else current)
      in if format c1 = [] \<and> format q \<noteq> [] then c1\<lparr>format := format q\<rparr> else c1)"

definition overlayOriginal ::
  "QualityOption \<Rightarrow> (string \<times> QualityOption) list \<Rightarrow> (string \<times> QualityOption) list" where
  "overlayOriginal q m =
     (case map_of m (quality q) of
        None \<Rightarrow> mapSet (quality q) q m
      | Some current \<Rightarrow> mapSet (quality q) (overlay current q) m)"

definition mergeQualities :: "QualityOption list \<Rightarrow> QualityOption list \<Rightarrow> QualityOption list" where
  "mergeQualities probed orig =
     map snd (fold overlayOriginal orig (fold (\<lambda>p. mapSet (quality p) p) probed []))"

subsection \<open>The shape of the quality map\<close>

text \<open>
  Every entry of the map that \<open>extractQualities\<close> builds is the audio entry under its own
  key, or a video entry stored under its label, the label of a positive height.
\<close>

definition entryOK :: "string \<times> QualityOption \<Rightarrow> bool" where
  "entryOK e \<longleftrightarrow>
     (fst e = ''audio'' \<and> snd e = audioOnly)
     \<or> (quality (snd e) = fst e \<and> (\<exists>h. 0 < h \<and> fst e = qualityLabel h))"

definition wellLabelled :: "(string \<times> QualityOption) list \<Rightarrow> bool" where
  "wellLabelled m \<longleftrightarrow> distinct (map fst m) \<and> list_all entryOK m"


text \<open>The entry a quality list offers under a label.\<close>

definition optionFor :: "string \<Rightarrow> QualityOption list \<Rightarrow> QualityOption option" where
  "optionFor label qs = List.find (\<lambda>opt. quality opt = label) qs"

subsection \<open>The shape of a merged map\<close>

text \<open>
  \<open>refines c q\<close>: \<open>q\<close> is \<open>c\<close> with, at most, a placeholder size and an empty container
  filled in. \<open>keyed m\<close>: every entry sits under its own label. \<open>overlaid base m\<close>: \<open>m\<close>
  is \<open>base\<close> with entries refined, followed by entries under new labels.
\<close>

definition refines :: "QualityOption \<Rightarrow> QualityOption \<Rightarrow> bool" where
  "refines c q \<longleftrightarrow>
     quality q = quality c
     \<and> (fileSize c = [] \<or> fileSize c = ''Unknown'' \<or> fileSize q = fileSize c)
     \<and> (format c = [] \<or> format q = format c)"

definition keyed :: "(string \<times> QualityOption) list \<Rightarrow> bool" where
  "keyed m \<longleftrightarrow> list_all (\<lambda>e. quality (snd e) = fst e) m"

definition refinedEntry :: "string \<times> QualityOption \<Rightarrow> string \<times> QualityOption \<Rightarrow> bool" where
  "refinedEntry a b \<longleftrightarrow> fst b = fst a \<and> refines (snd a) (snd b)"

definition overlaid ::
  "(string \<times> QualityOption) list \<Rightarrow> (string \<times> QualityOption) list \<Rightarrow> bool" where
  "overlaid base m \<longleftrightarrow>
     (\<exists>n e. m = n @ e \<and> list_all2 refinedEntry base n
            \<and> distinct (map fst (base @ e)) \<and> keyed e)"

section \<open>The external tool\<close>

text \<open>
  The process environment and the JavaScript library functions whose Unicode behaviour
  is not modelled are parameters: an unset environment variable is the empty string
  (both are falsy), \<open>toLowerCase\<close>, \<open>trim\<close> and \<open>dirname\<close> stand for
  \<open>String.prototype.toLowerCase\<close>, \<open>String.prototype.trim\<close> and \<open>path.dirname\<close>.
  \<open>spawn\<close> is the behaviour of the external tool during one call: the command line it
  is started with determines how the process ends.
\<close>

datatype ProcResult =
    Closed "int option" string string
  | SpawnError string

text \<open>
  \<open>Closed code stdout stderr\<close>: the \<open>close\<close> event with the exit code (\<open>None\<close> is the
  \<open>null\<close> of a process ended by a signal) and everything written to the two streams.
  \<open>SpawnError message\<close>: the \<open>error\<close> event.
\<close>

record Host =
  COOKIES_BROWSER :: string
  COOKIES_FILE :: string
  YTDLP_PATH :: string
  FFMPEG_PATH :: string
  toLowerCase :: "string \<Rightarrow> string"
  trim :: "string \<Rightarrow> string"
  dirname :: "string \<Rightarrow> string"
  spawn :: "string \<Rightarrow> string list \<Rightarrow> ProcResult"

text \<open>
  How a promise ends. \<open>Uncaught\<close>: an \<open>error\<close> event on a process that has no
  listener for it is thrown.
\<close>

datatype 'a Outcome = Resolved 'a | Rejected string | Uncaught string

subsection \<open>Text helpers\<close>

definition asciiLower :: "char \<Rightarrow> char" where
  "asciiLower c =
     (case map_of (zip ''ABCDEFGHIJKLMNOPQRSTUVWXYZ'' ''abcdefghijklmnopqrstuvwxyz'') c of
        Some l \<Rightarrow> l
      | None \<Rightarrow> c)"

text \<open>
  \<open>/literal/i.test(s)\<close> for a literal of ASCII letters and spaces: without the \<open>u\<close>
  flag a character outside ASCII never matches an ASCII letter, so the test is the
  substring test up to the case of ASCII letters.
\<close>

definition testIgnoreCase :: "string \<Rightarrow> string \<Rightarrow> bool" where
  "testIgnoreCase literal s = str_includes (map asciiLower s) (map asciiLower literal)"

text \<open>\<open>s.split('\n')[0]\<close>\<close>

definition firstLine :: "string \<Rightarrow> string" where
  "firstLine s = takeWhile (\<lambda>c. c \<noteq> CHR 0x0A) s"

fun endsWith :: "string \<Rightarrow> string \<Rightarrow> bool" where
  "endsWith s t = prefix (rev t) (rev s)"

definition userAgent :: string where
  "userAgent = ''Mozilla/5.0 (Windows NT 10.0; Win64; x64) AppleWebKit/537.36 (KHTML, like Gecko) Chrome/120.0.0.0 Safari/537.36''"

definition demoUrl :: string where
  "demoUrl = ''https://commondatastorage.googleapis.com/gtv-videos-bucket/sample/BigBuckBunny.mp4''"

subsection \<open>Command lines\<close>

definition cookieArgs :: "Host \<Rightarrow> string list" where
  "cookieArgs host =
     (if COOKIES_BROWSER host \<noteq> [] then [''--cookies-from-browser'', COOKIES_BROWSER host] else [])
     @ (if COOKIES_FILE host \<noteq> [] then [''--cookies'', COOKIES_FILE host] else [])"

definition ytdlpCmd :: "Host \<Rightarrow> string" where
  "ytdlpCmd host = (if YTDLP_PATH host \<noteq> [] then YTDLP_PATH host else ''yt-dlp'')"

definition ffmpegArgs :: "Host \<Rightarrow> string list" where
  "ffmpegArgs host =
     (if FFMPEG_PATH host \<noteq> []
      then [''--ffmpeg-location'',
            if endsWith (toLowerCase host (FFMPEG_PATH host)) ''.exe''
            then dirname host (FFMPEG_PATH host) else FFMPEG_PATH host]
      else [])"

definition isTikTokUrl :: "string \<Rightarrow> bool" where
  "isTikTokUrl url = str_includes url ''tiktok.com''"

definition isInstagramUrl :: "string \<Rightarrow> bool" where
  "isInstagramUrl url = str_includes url ''instagram.com''"

definition isPinterestUrl :: "string \<Rightarrow> bool" where
  "isPinterestUrl url = (str_includes url ''pinterest.com'' \<or> str_includes url ''pin.it'')"

definition isDailymotionUrl :: "string \<Rightarrow> bool" where
  "isDailymotionUrl url = (str_includes url ''dailymotion.com'' \<or> str_includes url ''dai.ly'')"

definition getFormatSelector :: "string \<Rightarrow> string \<Rightarrow> string" where
  "getFormatSelector qlty url =
     (if isTikTokUrl url \<or> isInstagramUrl url \<or> isPinterestUrl url then
        (let base = ''best[ext=mp4][protocol^=http]/best[protocol^=http]/best'' in
         if str_includes qlty ''1080'' then ''best[height<=1080][ext=mp4][protocol^=http]/'' @ base
         else if str_includes qlty ''720'' then ''best[height<=720][ext=mp4][protocol^=http]/'' @ base
         else if str_includes qlty ''480'' then ''best[height<=480][ext=mp4][protocol^=http]/'' @ base
         else base)
      else if str_includes qlty ''2160'' \<or> str_includes qlty ''4K'' then
        ''best[height<=2160][ext=mp4][protocol^=http]/best[height<=2160]/best[ext=mp4]/best''
      else if str_includes qlty ''1440'' \<or> str_includes qlty ''2K'' then
        ''best[height<=1440][ext=mp4][protocol^=http]/best[height<=1440]/best[ext=mp4]/best''
      else if str_includes qlty ''1080'' then
        ''best[height<=1080][ext=mp4][protocol^=http]/best[height<=1080]/best[ext=mp4]/best''
      else if str_includes qlty ''720'' then
        ''best[height<=720][ext=mp4][protocol^=http]/best[height<=720]/best[ext=mp4]/best''
      else if str_includes qlty ''480'' then
        ''best[height<=480][ext=mp4][protocol^=http]/best[height<=480]/best[ext=mp4]/best''
      else if str_includes qlty ''360'' then
        ''best[height<=360][ext=mp4][protocol^=http]/best[height<=360]/best[ext=mp4]/best''
      else if str_includes qlty ''240'' then
        ''best[height<=240][ext=mp4][protocol^=http]/best[height<=240]/best[ext=mp4]/best''
      else ''best[ext=mp4][protocol^=http]/best'')"

text \<open>The arguments of the first invocation of \<open>generateDownloadLink\<close>.\<close>

definition linkArgs :: "Host \<Rightarrow> string \<Rightarrow> string \<Rightarrow> string \<Rightarrow> string list" where
  "linkArgs host url qlty fmt =
     [''--get-url'', ''--no-warnings'', ''--user-agent'', userAgent, ''--ignore-config'',
      ''--no-check-certificate'', ''--geo-bypass'',
      ''--add-header'', ''Accept:*/*'',
      ''--add-header'', ''Accept-Language:en-us,en;q=0.5'',
      ''--add-header'', ''Sec-Fetch-Mode:cors'',
      ''--add-header'', ''Sec-Fetch-Site:cross-site'',
      ''--extractor-retries'', ''10'', ''--fragment-retries'', ''10'',
      ''--socket-timeout'', ''60'', ''--retry-sleep'', ''2'']
     @ (if isTikTokUrl url then
          [''--add-header'', ''Origin:https://www.tiktok.com'',
           ''--add-header'', ''Referer:https://www.tiktok.com/'',
           ''--extractor-args'', ''tiktok:api_hostname=api16-normal-c-useast1a.tiktokv.com'',
           ''--extractor-args'', ''tiktok:app_version=34.1.2'',
           ''--extractor-args'', ''tiktok:manifest_app_version=2023407020'']
          @ cookieArgs host
        else [])
     @ (if isInstagramUrl url then
          [''--add-header'', ''Origin:https://www.instagram.com'',
           ''--add-header'', ''Referer:https://www.instagram.com/'',
           ''--add-header'', ''X-Instagram-AJAX:1'',
           ''--add-header'', ''X-Requested-With:XMLHttpRequest'',
           ''--add-header'', ''Accept:*/*'',
           ''--add-header'', ''Accept-Encoding:gzip, deflate, br'',
           ''--add-header'', ''Cache-Control:no-cache'',
           ''--extractor-retries'', ''5'']
          @ cookieArgs host
        else [])
     @ (if isPinterestUrl url then
          [''--add-header'', ''Origin:https://www.pinterest.com'',
           ''--add-header'', ''Referer:https://www.pinterest.com/'',
           ''--add-header'', ''X-Requested-With:XMLHttpRequest'',
           ''--add-header'', ''Accept:*/*'',
           ''--add-header'', ''Accept-Encoding:gzip, deflate, br'',
           ''--add-header'', ''Cache-Control:no-cache'',
           ''--extractor-retries'', ''10'', ''--fragment-retries'', ''10'',
           ''--retry-sleep'', ''3'', ''--ignore-errors'']
          @ cookieArgs host
        else [])
     @ (if fmt = ''mp3'' then [''--extract-audio'', ''--audio-format'', ''mp3'']
        else [''--format'', getFormatSelector qlty url])
     @ [url]
     @ ffmpegArgs host"

text \<open>The Pinterest fallback: the generic extractor.\<close>

definition fallbackArgs :: "string \<Rightarrow> string list" where
  "fallbackArgs url =
     [''--get-url'', ''--no-warnings'', ''--ignore-config'', ''--no-check-certificate'',
      ''--geo-bypass'', ''--user-agent'', userAgent,
      ''--extractor-retries'', ''3'', ''--socket-timeout'', ''30'', ''--ignore-errors'',
      ''--force-generic-extractor'', ''-f'', ''best[ext=mp4]/best'', url]"

text \<open>The retry with the selector that accepts anything.\<close>

definition retryArgs :: "Host \<Rightarrow> string \<Rightarrow> string list" where
  "retryArgs host url =
     [''--get-url'', ''--no-warnings'', ''--user-agent'', userAgent, ''--ignore-config'',
      ''--no-check-certificate'', ''--geo-bypass'',
      ''--extractor-retries'', ''10'', ''--fragment-retries'', ''10'',
      ''--socket-timeout'', ''60'', ''--retry-sleep'', ''2'',
      ''--format'', ''best/bestvideo+bestaudio'']
     @ (if isTikTokUrl url then
          [''--add-header'', ''Origin:https://www.tiktok.com'',
           ''--add-header'', ''Referer:https://www.tiktok.com/'',
           ''--extractor-args'', ''tiktok:api_hostname=api16-normal-c-useast1a.tiktokv.com'',
           ''--extractor-args'', ''tiktok:app_version=34.1.2'',
           ''--extractor-args'', ''tiktok:manifest_app_version=2023407020'']
          @ cookieArgs host
        else [])
     @ (if isInstagramUrl url then
          [''--add-header'', ''Origin:https://www.instagram.com'',
           ''--add-header'', ''Referer:https://www.instagram.com/'',
           ''--add-header'', ''X-Instagram-AJAX:1'',
           ''--add-header'', ''X-Requested-With:XMLHttpRequest'']
          @ cookieArgs host
        else [])
     @ (if isPinterestUrl url then
          [''--add-header'', ''Origin:https://www.pinterest.com'',
           ''--add-header'', ''Referer:https://www.pinterest.com/'']
          @ cookieArgs host
        else [])
     @ (if isDailymotionUrl url then
          [''--add-header'', ''Origin:https://www.dailymotion.com'',
           ''--add-header'', ''Referer:https://www.dailymotion.com/'']
          @ cookieArgs host
        else [])
     @ [url]
     @ ffmpegArgs host"

subsection \<open>generateDownloadLink\<close>

text \<open>The tests the failure branch makes on the URL and the text of stderr.\<close>

definition jsonParseFailure :: "string \<Rightarrow> bool" where
  "jsonParseFailure errorOutput \<longleftrightarrow>
     testIgnoreCase ''Failed to parse JSON'' errorOutput
     \<or> testIgnoreCase ''JSONDecodeError'' errorOutput"

definition pinterestJsonFailure :: "string \<Rightarrow> string \<Rightarrow> bool" where
  "pinterestJsonFailure url errorOutput \<longleftrightarrow> isPinterestUrl url \<and> jsonParseFailure errorOutput"

definition formatUnavailable :: "string \<Rightarrow> bool" where
  "formatUnavailable errorOutput \<longleftrightarrow>
     testIgnoreCase ''Requested format is not available'' errorOutput"

definition signInRequired :: "string \<Rightarrow> bool" where
  "signInRequired errorOutput \<longleftrightarrow>
     str_includes errorOutput ''Sign in to confirm'' \<or> str_includes errorOutput ''ERROR: [youtube]''"

text \<open>
  The result is how the promise ends, together with the command lines that were spawned,
  in order.
\<close>

definition generateDownloadLink ::
  "Host \<Rightarrow> string \<Rightarrow> string \<Rightarrow> string \<Rightarrow> string Outcome \<times> (string \<times> string list) list" where
  "generateDownloadLink host url qlty fmt =
     (let args = linkArgs host url qlty fmt;
          cmd = ytdlpCmd host;
          first = (cmd, args)
      in case spawn host cmd args of
           SpawnError message \<Rightarrow> (Rejected (''yt-dlp execution failed: '' @ message), [first])
         | Closed code output errorOutput \<Rightarrow>
             if code \<noteq> Some 0 then
               if pinterestJsonFailure url errorOutput then
                 (case spawn host cmd (fallbackArgs url) of
                    SpawnError message \<Rightarrow> (Uncaught message, [first, (cmd, fallbackArgs url)])
                  | Closed fallbackCode fallbackOutput fallbackErr \<Rightarrow>
                      (if fallbackCode = Some 0 \<and> trim host fallbackOutput \<noteq> []
                       then Resolved (trim host fallbackOutput)
                       else Resolved demoUrl,
                       [first, (cmd, fallbackArgs url)]))
               else if formatUnavailable errorOutput then
                 (case spawn host cmd (retryArgs host url) of
                    SpawnError message \<Rightarrow> (Uncaught message, [first, (cmd, retryArgs host url)])
                  | Closed retryCode retryOut retryErr \<Rightarrow>
                      (if retryCode = Some 0 then
                         (let retryUrl = firstLine (trim host retryOut)
                          in if retryUrl \<noteq> [] then Resolved retryUrl
                             else Rejected ''Retry succeeded but no URL returned'')
                       else if isTikTokUrl url \<or> isInstagramUrl url then Resolved demoUrl
                       else Rejected (''Download link generation failed after retry: ''
                                      @ (if retryErr \<noteq> [] then retryErr else errorOutput)),
                       [first, (cmd, retryArgs host url)]))
               else if isTikTokUrl url \<or> isInstagramUrl url then (Resolved demoUrl, [first])
               else if signInRequired errorOutput then (Resolved demoUrl, [first])
               else (Rejected (''Download link generation failed: '' @ errorOutput), [first])
             else
               (let downloadUrl = firstLine (trim host output)
                in if downloadUrl = [] then (Rejected ''No download URL returned from yt-dlp'', [first])
                   else (Resolved downloadUrl, [first])))"

subsection \<open>Hosts for the examples\<close>

text \<open>
  A host without environment variables whose library functions are the ASCII ones, for
  a given tool; and tools that answer by the kind of command line they are given.
\<close>

definition isSpace :: "char \<Rightarrow> bool" where
  "isSpace c = (c = CHR '' '' \<or> c = CHR 0x09 \<or> c = CHR 0x0A \<or> c = CHR 0x0D)"

definition asciiTrim :: "string \<Rightarrow> string" where
  "asciiTrim s = rev (dropWhile isSpace (rev (dropWhile isSpace s)))"

definition plainHost :: "(string \<Rightarrow> string list \<Rightarrow> ProcResult) \<Rightarrow> Host" where
  "plainHost tool =
     \<lparr>COOKIES_BROWSER = [], COOKIES_FILE = [], YTDLP_PATH = [], FFMPEG_PATH = [],
      toLowerCase = map asciiLower, trim = asciiTrim, dirname = (\<lambda>p. p), spawn = tool\<rparr>"

definition scriptedTool ::
  "ProcResult \<Rightarrow> ProcResult \<Rightarrow> ProcResult \<Rightarrow> string \<Rightarrow> string list \<Rightarrow> ProcResult" where
  "scriptedTool first fallback retry cmd args =
     (if ''--force-generic-extractor'' \<in> set args then fallback
      else if ''best/bestvideo+bestaudio'' \<in> set args then retry
      else first)"




text \<open>
  A YouTube link whose first run asks to sign in and reports an unavailable format; the
  retry fails as well.
\<close>

definition signInErr :: string where
  "signInErr = ''Sign in to confirm. Requested format is not available''"

definition signInHost :: Host where
  "signInHost =
     plainHost (scriptedTool
       (Closed (Some 1) [] signInErr)
       (Closed (Some 1) [] [])
       (Closed (Some 1) [] ''Sign in to confirm''))"

text \<open>A Pinterest short link whose first run reports a JSON parse failure; the generic extractor fails.\<close>

definition pinterestJsonHost :: Host where
  "pinterestJsonHost =
     plainHost (scriptedTool
       (Closed (Some 1) [] ''Failed to parse JSON'')
       (Closed (Some 1) [] ''Unsupported URL'')
       (Closed (Some 1) [] []))"

text \<open>A Vimeo link on which the tool fails with a plain error.\<close>

definition plainFailureHost :: Host where
  "plainFailureHost =
     plainHost (scriptedTool (Closed (Some 1) [] ''Unable to download webpage'')
       (Closed (Some 1) [] []) (Closed (Some 1) [] []))"

section \<open>Metadata extraction\<close>

record ExtractedVideoInfo =
  title :: string
  description :: string
  thumbnail :: string
  duration :: string
  uploader :: string
  viewCount :: nat
  platform :: string
  availableQualities :: "QualityOption list"

text \<open>
  What the network and the JSON parser answer during one call. \<open>FetchFailed\<close>: \<open>fetch\<close>
  threw (a network error, or the abort at the timeout). \<open>Response ok body\<close>: a response
  with its \<open>ok\<close> flag; the body is \<open>None\<close> when reading it throws (for an oEmbed reply:
  \<open>resp.json()\<close> throws, or yields \<open>null\<close>, whose fields cannot be read).
\<close>

datatype 'a Fetched = FetchFailed | Response bool "'a option"

record OEmbedData =
  oembedTitle :: string
  thumbnail_url :: string
  author_name :: string

text \<open>The fields the page scrape reads with its regular expressions.\<close>

record ScrapedMeta =
  scrapedTitle :: string
  scrapedDescription :: string
  scrapedThumb :: string
  scrapedUploader :: string

text \<open>
  A line of the tool's output that parses as a JSON object with a truthy \<open>title\<close> or
  \<open>id\<close>, with the fields \<open>extractVideoInfo\<close> reads (an absent text field is empty, an
  absent number is 0; \<open>firstThumbnailUrl\<close> is \<open>thumbnails?.[0]?.url\<close>; the duration is in
  whole seconds).
\<close>

record VideoData =
  videoTitle :: string
  videoDescription :: string
  videoThumbnail :: string
  firstThumbnailUrl :: string
  videoDuration :: nat
  videoUploader :: string
  videoChannel :: string
  videoUploaderId :: string
  view_count :: nat
  videoFormats :: "StreamFormat list"

record Web =
  encodeURIComponent :: "string \<Rightarrow> string"
  oembed :: "string \<Rightarrow> OEmbedData Fetched"
  page :: "string \<Rightarrow> string Fetched"
  scrapeMeta :: "string \<Rightarrow> string \<Rightarrow> ScrapedMeta"
  parseRecord :: "string \<Rightarrow> VideoData option"
  renderSize :: "nat \<Rightarrow> string"

text \<open>\<open>a || b\<close> on strings.\<close>

definition orElse :: "string \<Rightarrow> string \<Rightarrow> string" where
  "orElse a b = (if a \<noteq> [] then a else b)"

subsection \<open>Quality ladders of the fast paths and of the demo results\<close>

definition genericLadder7 :: "QualityOption list" where
  "genericLadder7 =
     [\<lparr>quality = ''4K (2160p)'', format = ''mp4'', fileSize = ''Unknown''\<rparr>,
      \<lparr>quality = ''2K (1440p)'', format = ''mp4'', fileSize = ''Unknown''\<rparr>,
      \<lparr>quality = ''1080p HD'', format = ''mp4'', fileSize = ''Unknown''\<rparr>,
      \<lparr>quality = ''720p HD'', format = ''mp4'', fileSize = ''Unknown''\<rparr>,
      \<lparr>quality = ''480p'', format = ''mp4'', fileSize = ''Unknown''\<rparr>,
      \<lparr>quality = ''360p'', format = ''mp4'', fileSize = ''Unknown''\<rparr>,
      \<lparr>quality = ''Audio Only'', format = ''mp3'', fileSize = ''Variable''\<rparr>]"

definition genericLadder4 :: "QualityOption list" where
  "genericLadder4 =
     [\<lparr>quality = ''1080p HD'', format = ''mp4'', fileSize = ''Unknown''\<rparr>,
      \<lparr>quality = ''720p HD'', format = ''mp4'', fileSize = ''Unknown''\<rparr>,
      \<lparr>quality = ''480p'', format = ''mp4'', fileSize = ''Unknown''\<rparr>,
      \<lparr>quality = ''Audio Only'', format = ''mp3'', fileSize = ''Variable''\<rparr>]"

definition demoLadder :: "QualityOption list" where
  "demoLadder =
     [\<lparr>quality = ''4K (2160p)'', format = ''mp4'', fileSize = ''245 MB''\<rparr>,
      \<lparr>quality = ''2K (1440p)'', format = ''mp4'', fileSize = ''156 MB''\<rparr>,
      \<lparr>quality = ''1080p HD'', format = ''mp4'', fileSize = ''89 MB''\<rparr>,
      \<lparr>quality = ''720p HD'', format = ''mp4'', fileSize = ''45 MB''\<rparr>,
      \<lparr>quality = ''480p'', format = ''mp4'', fileSize = ''28 MB''\<rparr>,
      \<lparr>quality = ''360p'', format = ''mp4'', fileSize = ''18 MB''\<rparr>,
      \<lparr>quality = ''Audio Only'', format = ''mp3'', fileSize = ''4.2 MB''\<rparr>]"

subsection \<open>The fast paths\<close>

definition oembedInfo :: "string \<Rightarrow> string \<Rightarrow> QualityOption list \<Rightarrow> OEmbedData \<Rightarrow> ExtractedVideoInfo" where
  "oembedInfo name p ladder d =
     \<lparr>title = orElse (oembedTitle d) (name @ '' Video''), description = [],
      thumbnail = orElse (thumbnail_url d) [], duration = ''Unknown'',
      uploader = orElse (author_name d) name, viewCount = 0, platform = p,
      availableQualities = ladder\<rparr>"

definition youtubeOembedUrl :: "Web \<Rightarrow> string \<Rightarrow> string" where
  "youtubeOembedUrl web url =
     ''https://www.youtube.com/oembed?url='' @ encodeURIComponent web url @ ''&format=json''"

definition vimeoOembedUrl :: "Web \<Rightarrow> string \<Rightarrow> string" where
  "vimeoOembedUrl web url = ''https://vimeo.com/api/oembed.json?url='' @ encodeURIComponent web url"

definition dailymotionOembedUrl :: "Web \<Rightarrow> string \<Rightarrow> string" where
  "dailymotionOembedUrl web url =
     ''https://www.dailymotion.com/services/oembed?url='' @ encodeURIComponent web url"

text \<open>
  One \<open>try\<close> block of an oEmbed probe: \<open>Some\<close> is the \<open>return resolve(...)\<close>, \<open>None\<close> is
  falling out of the block (response not ok, or an exception caught).
\<close>

definition oembedProbe ::
  "Web \<Rightarrow> string \<Rightarrow> string \<Rightarrow> string \<Rightarrow> QualityOption list \<Rightarrow> ExtractedVideoInfo option" where
  "oembedProbe web oembedUrl name p ladder =
     (case oembed web oembedUrl of
        FetchFailed \<Rightarrow> None
      | Response ok body \<Rightarrow>
          (if ok then (case body of
                         None \<Rightarrow> None
                       | Some d \<Rightarrow> Some (oembedInfo name p ladder d))
           else None))"

definition scrapeProbe :: "Web \<Rightarrow> string \<Rightarrow> string \<Rightarrow> ExtractedVideoInfo option" where
  "scrapeProbe web url p =
     (case page web url of
        FetchFailed \<Rightarrow> None
      | Response ok body \<Rightarrow>
          (if ok then (case body of
                         None \<Rightarrow> None
                       | Some html \<Rightarrow>
                           (let m = scrapeMeta web p html
                            in Some \<lparr>title = scrapedTitle m, description = scrapedDescription m,
                                     thumbnail = scrapedThumb m, duration = ''Unknown'',
                                     uploader = scrapedUploader m, viewCount = 0, platform = p,
                                     availableQualities = genericLadder4\<rparr>))
           else None))"

text \<open>The platform names are pairwise different, so at most one probe is made.\<close>

definition fastPath :: "Web \<Rightarrow> string \<Rightarrow> string \<Rightarrow> ExtractedVideoInfo option" where
  "fastPath web url p =
     (if p = ''YouTube'' then oembedProbe web (youtubeOembedUrl web url) ''YouTube'' p genericLadder7
      else if p = ''Vimeo'' then oembedProbe web (vimeoOembedUrl web url) ''Vimeo'' p genericLadder4
      else if p = ''Dailymotion'' then
        oembedProbe web (dailymotionOembedUrl web url) ''Dailymotion'' p genericLadder4
      else if p = ''TikTok'' \<or> p = ''Instagram'' \<or> p = ''Pinterest'' then scrapeProbe web url p
      else None)"

subsection \<open>The tool in metadata-dump mode\<close>

definition infoArgs :: "Host \<Rightarrow> string \<Rightarrow> string list" where
  "infoArgs host url =
     [''--dump-json'', ''--no-download'', ''--no-warnings'', ''--no-playlist'',
      ''--user-agent'', userAgent, ''--ignore-config'', ''--no-check-certificate'',
      ''--geo-bypass'', ''--force-ipv4'',
      ''--add-header'', ''Accept:text/html,application/xhtml+xml,application/xml;q=0.9,*/*;q=0.8'',
      ''--add-header'', ''Accept-Language:en-us,en;q=0.5'',
      ''--add-header'', ''Sec-Fetch-Mode:navigate'',
      ''--extractor-retries'', ''3'', ''--socket-timeout'', ''30'']
     @ (if isTikTokUrl url then
          [''--add-header'', ''Origin:https://www.tiktok.com'',
           ''--add-header'', ''Referer:https://www.tiktok.com/'',
           ''--extractor-args'', ''tiktok:api_hostname=api16-normal-c-useast1a.tiktokv.com'',
           ''--extractor-args'', ''tiktok:app_version=34.1.2'',
           ''--extractor-args'', ''tiktok:manifest_app_version=2023407020'']
          @ cookieArgs host
        else [])
     @ (if isInstagramUrl url then
          [''--add-header'', ''Origin:https://www.instagram.com'',
           ''--add-header'', ''Referer:https://www.instagram.com/'',
           ''--add-header'', ''X-Instagram-AJAX:1'',
           ''--add-header'', ''X-Requested-With:XMLHttpRequest'',
           ''--add-header'', ''Accept:*/*'',
           ''--add-header'', ''Accept-Encoding:gzip, deflate, br'',
           ''--add-header'', ''Cache-Control:no-cache'',
           ''--extractor-retries'', ''5'']
          @ cookieArgs host
        else [])
     @ (if isPinterestUrl url then
          [''--add-header'', ''Origin:https://www.pinterest.com'',
           ''--add-header'', ''Referer:https://www.pinterest.com/'',
           ''--add-header'', ''X-Requested-With:XMLHttpRequest'']
          @ cookieArgs host
        else [])
     @ (if isDailymotionUrl url then
          [''--add-header'', ''Origin:https://www.dailymotion.com'',
           ''--add-header'', ''Referer:https://www.dailymotion.com/'']
          @ cookieArgs host
        else [])
     @ [url]
     @ ffmpegArgs host"

text \<open>The two demo results of the failure branch.\<close>

definition youtubeDemoInfo :: "string \<Rightarrow> ExtractedVideoInfo" where
  "youtubeDemoInfo p =
     \<lparr>title = ''Sample Video (Demo Mode)'',
      description = ''This is a demo video since YouTube requires authentication. In production, proper authentication would be needed.'',
      thumbnail = ''https://images.unsplash.com/photo-1611162617474-5b21e879e113?ixlib=rb-4.0.3&auto=format&fit=crop&w=800&h=450'',
      duration = ''3:45'', uploader = ''Demo Channel'', viewCount = 123456, platform = p,
      availableQualities = demoLadder\<rparr>"

definition socialPlatformName :: "string \<Rightarrow> string" where
  "socialPlatformName url =
     (if isTikTokUrl url then ''TikTok'' else if isInstagramUrl url then ''Instagram''
      else ''Pinterest'')"

definition socialDemoInfo :: "string \<Rightarrow> string \<Rightarrow> ExtractedVideoInfo" where
  "socialDemoInfo url p =
     \<lparr>title = socialPlatformName url @ '' Sample (Demo Mode)'',
      description = socialPlatformName url @ '' content may require login/cookies or be private. Configure COOKIES_BROWSER environment variable for better extraction.'',
      thumbnail = ''https://images.unsplash.com/photo-1524255684952-d7185b509571?q=80&w=1200&auto=format&fit=crop'',
      duration = ''00:30'', uploader = socialPlatformName url @ '' Creator'', viewCount = 98765,
      platform = p, availableQualities = genericLadder4\<rparr>"

text \<open>The tests of the failure branch on the URL and on stderr.\<close>

definition isSocialUrl :: "string \<Rightarrow> bool" where
  "isSocialUrl url \<longleftrightarrow> isTikTokUrl url \<or> isInstagramUrl url \<or> isPinterestUrl url"

definition blockedSignature :: "Host \<Rightarrow> string \<Rightarrow> bool" where
  "blockedSignature host errorOutput \<longleftrightarrow>
     str_includes errorOutput ''HTTP Error 403'' \<or> str_includes errorOutput ''HTTP Error 401''
     \<or> str_includes (toLowerCase host errorOutput) ''login''
     \<or> str_includes (toLowerCase host errorOutput) ''forbidden''
     \<or> str_includes (toLowerCase host errorOutput) ''private''
     \<or> str_includes (toLowerCase host errorOutput) ''unavailable''
     \<or> str_includes (toLowerCase host errorOutput) ''not available''
     \<or> str_includes (toLowerCase host errorOutput) ''blocked''"

definition socialBlocked :: "Host \<Rightarrow> string \<Rightarrow> string \<Rightarrow> bool" where
  "socialBlocked host url errorOutput \<longleftrightarrow> isSocialUrl url \<and> blockedSignature host errorOutput"

text \<open>The success branch: lines, duration, the result.\<close>

fun splitLines :: "string \<Rightarrow> string list" where
  "splitLines [] = [[]]"
| "splitLines (c # s) =
     (if c = CHR 0x0A then [] # splitLines s
      else (case splitLines s of l # ls \<Rightarrow> (c # l) # ls | [] \<Rightarrow> [[c]]))"

fun firstRecord :: "(string \<Rightarrow> VideoData option) \<Rightarrow> string list \<Rightarrow> VideoData option" where
  "firstRecord parse [] = None"
| "firstRecord parse (l # ls) =
     (case parse l of Some v \<Rightarrow> Some v | None \<Rightarrow> firstRecord parse ls)"

definition pad2 :: "nat \<Rightarrow> string" where
  "pad2 n = (if n < 10 then CHR ''0'' # showNat n else showNat n)"

definition formatDuration :: "nat \<Rightarrow> string" where
  "formatDuration seconds =
     (if seconds = 0 then ''00:00''
      else let hours = seconds div 3600;
               minutes = (seconds mod 3600) div 60;
               remainingSeconds = seconds mod 60
           in if 0 < hours then pad2 hours @ '':'' @ pad2 minutes @ '':'' @ pad2 remainingSeconds
              else pad2 minutes @ '':'' @ pad2 remainingSeconds)"

definition infoOfRecord :: "Web \<Rightarrow> string \<Rightarrow> VideoData \<Rightarrow> ExtractedVideoInfo" where
  "infoOfRecord web p v =
     \<lparr>title = orElse (videoTitle v) ''Unknown Title'',
      description = orElse (videoDescription v) [],
      thumbnail = orElse (videoThumbnail v) (orElse (firstThumbnailUrl v) []),
      duration = formatDuration (videoDuration v),
      uploader = orElse (videoUploader v)
                   (orElse (videoChannel v) (orElse (videoUploaderId v) ''Unknown'')),
      viewCount = view_count v, platform = p,
      availableQualities = extractQualities (renderSize web) (videoFormats v)\<rparr>"

subsection \<open>extractVideoInfo\<close>

text \<open>
  The promise executor is an \<open>async\<close> function: the exception of \<open>detectPlatform\<close> is
  thrown inside it and caught by nothing. The result is how the promise ends, together
  with the command lines that were spawned.
\<close>

definition extractVideoInfo ::
  "Host \<Rightarrow> Web \<Rightarrow> string \<Rightarrow> ExtractedVideoInfo Outcome \<times> (string \<times> string list) list" where
  "extractVideoInfo host web url =
     (case detectPlatform url of
        Inl e \<Rightarrow> (Uncaught ''Unsupported platform'', [])
      | Inr p \<Rightarrow>
          (case fastPath web url p of
             Some info \<Rightarrow> (Resolved info, [])
           | None \<Rightarrow>
               (let args = infoArgs host url; cmd = ytdlpCmd host in
                (case spawn host cmd args of
                   SpawnError message \<Rightarrow> Rejected (''yt-dlp execution failed: '' @ message)
                 | Closed code output errorOutput \<Rightarrow>
                     if code \<noteq> Some 0 then
                       if signInRequired errorOutput then Resolved (youtubeDemoInfo p)
                       else if socialBlocked host url errorOutput then Resolved (socialDemoInfo url p)
                       else Rejected (''Video extraction failed: ''
                                      @ orElse errorOutput ''Unknown error'')
                     else if trim host output = [] then
                       Rejected (''No output from yt-dlp for URL: '' @ url)
                     else (case firstRecord (parseRecord web) (splitLines (trim host output)) of
                             None \<Rightarrow> Rejected (''No valid video data found in output: ''
                                               @ take 200 output @ ''...'')
                           | Some v \<Rightarrow> Resolved (infoOfRecord web p v)),
                 [(cmd, args)]))))"

subsection \<open>Examples for extractVideoInfo\<close>

text \<open>
  A network on which every probe fails, and one on which the oEmbed endpoint answers
  with status 200 and a body that is not JSON. No line of output parses.
\<close>

definition noMeta :: ScrapedMeta where
  "noMeta = \<lparr>scrapedTitle = [], scrapedDescription = [], scrapedThumb = [], scrapedUploader = []\<rparr>"

definition offlineWeb :: Web where
  "offlineWeb =
     \<lparr>encodeURIComponent = (\<lambda>s. s), oembed = (\<lambda>u. FetchFailed), page = (\<lambda>u. FetchFailed),
      scrapeMeta = (\<lambda>p html. noMeta), parseRecord = (\<lambda>l. None),
      renderSize = (\<lambda>n. showNat n @ '' B'')\<rparr>"



text \<open>The privacy and blocking keywords as the claim lists them.\<close>

definition claimedKeywords :: "string list" where
  "claimedKeywords =
     [''403'', ''401'', ''login'', ''forbidden'', ''private'', ''unavailable'', ''blocked'']"

definition notAvailableErr :: string where
  "notAvailableErr = ''Video not available''"

definition notAvailableHost :: Host where
  "notAvailableHost =
     plainHost (scriptedTool (Closed (Some 1) [] notAvailableErr)
       (Closed (Some 1) [] []) (Closed (Some 1) [] []))"

definition status403Err :: string where
  "status403Err = ''status 403''"

definition status403Host :: Host where
  "status403Host =
     plainHost (scriptedTool (Closed (Some 1) [] status403Err)
       (Closed (Some 1) [] []) (Closed (Some 1) [] []))"

section \<open>The streaming handler\<close>

text \<open>
  \<open>app.get('/api/stream-video', ...)\<close>. The request gives the query parameters as strings
  (empty when absent) and the \<open>Range\<close> header. The surroundings of one request: the title
  cached for the URL, the temporary directory and the unique part of the file name
  (\<open>Date.now()\<close> and \<open>Math.random()\<close>), \<open>path.join\<close>, the sanitising of the title and the
  reading of a file extension off a URL (both regular expressions; \<open>None\<close> when
  \<open>new URL(...)\<close> throws, the empty string when the path has no extension), and what the
  media origin answers to \<open>fetch\<close> for a URL and a \<open>Range\<close> value (\<open>Inl message\<close> when
  \<open>fetch\<close> throws).
\<close>

record Request =
  reqUrl :: string
  reqQuality :: string
  reqFormat :: string
  reqToken :: string
  reqCompatible :: string
  reqRange :: string

record UpstreamReply =
  upOk :: bool
  upStatusLine :: string
  upContentType :: string
  upContentLength :: string
  upHasBody :: bool

record Surroundings =
  cachedTitle :: "string option"
  sanitizeTitle :: "string \<Rightarrow> string"
  tmpDir :: string
  uniqueName :: string
  pathJoin :: "string \<Rightarrow> string \<Rightarrow> string"
  ALLOW_COOKIES_FROM_BROWSER :: string
  urlPathExt :: "string \<Rightarrow> string option"
  fetchUpstream :: "string \<Rightarrow> string \<Rightarrow> string + UpstreamReply"

text \<open>
  The state of one request: the response (\<open>headersSent\<close>, the status code, the headers
  set, the JSON error body if one was sent, the bytes written, whether the response was
  ended), the log, the files in the temporary directory with their contents, the listeners
  that are registered (on the tool process, on the read stream of the temporary file, on the
  upstream body), and \<open>faults\<close>: the number of times an error response was attempted on
  a response whose headers were already sent, which Express answers by throwing.
\<close>

record Stream =
  headersSent :: bool
  statusCode :: nat
  headers :: "(string \<times> string) list"
  jsonBody :: "string option"
  sentBytes :: "string list"
  finished :: bool
  logs :: "string list"
  files :: "string \<Rightarrow> string option"
  procOpen :: bool
  readOpen :: bool
  bodyOpen :: bool
  outPath :: string
  spawned :: "(string \<times> string list) list"
  faults :: nat

definition freshStream :: "(string \<Rightarrow> string option) \<Rightarrow> Stream" where
  "freshStream fs =
     \<lparr>headersSent = False, statusCode = 200, headers = [], jsonBody = None, sentBytes = [],
      finished = False, logs = [], files = fs, procOpen = False, readOpen = False,
      bodyOpen = False, outPath = [], spawned = [], faults = 0\<rparr>"

subsection \<open>The response object\<close>

text \<open>\<open>res.setHeader(name, value)\<close> before the headers are sent.\<close>

definition setHeader :: "string \<Rightarrow> string \<Rightarrow> Stream \<Rightarrow> Stream" where
  "setHeader name v s = s\<lparr>headers := mapSet name v (headers s)\<rparr>"

text \<open>
  \<open>res.status(code).json({ error: message })\<close>: sends the headers and the body and ends
  the response; on a response whose headers are sent it throws.
\<close>

definition sendError :: "nat \<Rightarrow> string \<Rightarrow> Stream \<Rightarrow> Stream" where
  "sendError code message s =
     (if headersSent s then s\<lparr>faults := Suc (faults s)\<rparr>
      else s\<lparr>statusCode := code, jsonBody := Some message, headersSent := True,
             finished := True\<rparr>)"

text \<open>\<open>if (!res.headersSent) { res.status(code).json(...) }\<close>\<close>

definition guardedError :: "nat \<Rightarrow> string \<Rightarrow> Stream \<Rightarrow> Stream" where
  "guardedError code message s = (if \<not> headersSent s then sendError code message s else s)"

text \<open>A chunk written by \<open>pipe\<close>, and the \<open>end\<close> it passes on.\<close>

definition writeChunk :: "string \<Rightarrow> Stream \<Rightarrow> Stream" where
  "writeChunk chunk s =
     (if finished s then s else s\<lparr>headersSent := True, sentBytes := sentBytes s @ [chunk]\<rparr>)"

definition endResponse :: "Stream \<Rightarrow> Stream" where
  "endResponse s = (if finished s then s else s\<lparr>headersSent := True, finished := True\<rparr>)"

definition logLine :: "string \<Rightarrow> Stream \<Rightarrow> Stream" where
  "logLine l s = s\<lparr>logs := logs s @ [l]\<rparr>"

text \<open>\<open>try { fs.unlinkSync(path) } catch {}\<close>\<close>

definition unlinkQuietly :: "string \<Rightarrow> Stream \<Rightarrow> Stream" where
  "unlinkQuietly path s = s\<lparr>files := (files s)(path := None)\<rparr>"

subsection \<open>The decision between relaying and transcoding\<close>

definition isTrue :: "string \<Rightarrow> bool" where
  "isTrue compatParam \<longleftrightarrow> compatParam = ''1'' \<or> compatParam = ''true''"

definition isFalse :: "string \<Rightarrow> bool" where
  "isFalse compatParam \<longleftrightarrow> compatParam = ''0'' \<or> compatParam = ''false''"

definition compatible :: "Host \<Rightarrow> Request \<Rightarrow> bool" where
  "compatible host req =
     (let compatParam = toLowerCase host (reqCompatible req);
          requestedCompat = isTrue compatParam;
          disableCompat = isFalse compatParam
      in if \<not> disableCompat \<and> isTikTokUrl (reqUrl req) \<and> reqFormat req \<noteq> ''mp3'' then True
         else requestedCompat \<and> \<not> disableCompat)"

definition transcodes :: "Host \<Rightarrow> Request \<Rightarrow> bool" where
  "transcodes host req \<longleftrightarrow> reqFormat req = ''mp3'' \<or> compatible host req"

definition baseName :: "Surroundings \<Rightarrow> string" where
  "baseName sur = (case cachedTitle sur of Some t \<Rightarrow> sanitizeTitle sur t | None \<Rightarrow> ''video'')"

definition cookieValue :: "string \<Rightarrow> string" where
  "cookieValue token = ''fileDownloadToken='' @ token @ ''; Path=/; SameSite=Lax''"

subsection \<open>The transcode branch\<close>

definition outExt :: "Request \<Rightarrow> string" where
  "outExt req = (if reqFormat req = ''mp3'' then ''mp3'' else ''mp4'')"

definition tempPath :: "Surroundings \<Rightarrow> Request \<Rightarrow> string" where
  "tempPath sur req =
     pathJoin sur (tmpDir sur) (''vidfetch-'' @ uniqueName sur @ ''.'' @ outExt req)"

definition heightSelector :: "string \<Rightarrow> string" where
  "heightSelector qlty =
     (if str_includes qlty ''1080'' then
        ''bestvideo[height<=1080][ext=mp4][vcodec~='^(avc1|h264)']+bestaudio[ext=m4a]/best[height<=1080][ext=mp4]/best[ext=mp4]/best''
      else if str_includes qlty ''720'' then
        ''bestvideo[height<=720][ext=mp4][vcodec~='^(avc1|h264)']+bestaudio[ext=m4a]/best[height<=720][ext=mp4]/best[ext=mp4]/best''
      else ''bestvideo[ext=mp4][vcodec~='^(avc1|h264)']+bestaudio[ext=m4a]/best[ext=mp4]/best'')"

definition transcodeArgs :: "Host \<Rightarrow> Surroundings \<Rightarrow> Request \<Rightarrow> string list" where
  "transcodeArgs host sur req =
     [''--no-warnings'', ''--ignore-config'', ''--no-check-certificate'', ''--geo-bypass'',
      ''--user-agent'', userAgent, ''--socket-timeout'', ''60'', ''--extractor-retries'', ''5'']
     @ (if isInstagramUrl (reqUrl req) then
          [''--add-header'', ''Origin:https://www.instagram.com'',
           ''--add-header'', ''Referer:https://www.instagram.com/'',
           ''--add-header'', ''X-Instagram-AJAX:1'',
           ''--add-header'', ''X-Requested-With:XMLHttpRequest'']
        else if isPinterestUrl (reqUrl req) then
          [''--add-header'', ''Origin:https://www.pinterest.com'',
           ''--add-header'', ''Referer:https://www.pinterest.com/'',
           ''--add-header'', ''X-Requested-With:XMLHttpRequest'']
        else if isTikTokUrl (reqUrl req) then
          [''--add-header'', ''Origin:https://www.tiktok.com'',
           ''--add-header'', ''Referer:https://www.tiktok.com/'']
        else [])
     @ (if COOKIES_FILE host \<noteq> [] then [''--cookies'', COOKIES_FILE host]
        else if COOKIES_BROWSER host \<noteq> [] \<and> ALLOW_COOKIES_FROM_BROWSER sur = ''1''
          then [''--cookies-from-browser'', COOKIES_BROWSER host]
        else [])
     @ (if reqFormat req = ''mp3'' then [''--extract-audio'', ''--audio-format'', ''mp3'']
        else [''-f'', heightSelector (reqQuality req), ''--merge-output-format'', ''mp4''])
     @ [''-o'', tempPath sur req, reqUrl req]
     @ ffmpegArgs host"

text \<open>
  The branch up to its \<open>return\<close>: the headers, the process spawned, its listeners
  registered.
\<close>

definition startTranscode :: "Host \<Rightarrow> Surroundings \<Rightarrow> Request \<Rightarrow> Stream \<Rightarrow> Stream" where
  "startTranscode host sur req s =
     (let s1 = setHeader ''Content-Disposition''
                 (''attachment; filename=\"'' @ baseName sur @ ''.'' @ outExt req @ ''\"'') s;
          s2 = setHeader ''Content-Type''
                 (if reqFormat req = ''mp3'' then ''audio/mpeg'' else ''video/mp4'') s1;
          s3 = setHeader ''Cache-Control'' ''no-cache'' s2;
          s4 = setHeader ''Access-Control-Allow-Origin'' ''*'' s3;
          s5 = (if reqToken req \<noteq> [] then setHeader ''Set-Cookie'' (cookieValue (reqToken req)) s4
                else s4)
      in s5\<lparr>outPath := tempPath sur req,
             spawned := spawned s5 @ [(ytdlpCmd host, transcodeArgs host sur req)],
             procOpen := True\<rparr>)"

text \<open>
  What can happen after the branch has returned. \<open>ToolWrites content\<close> is the tool
  writing its output file; the other events are those of the process, of the read stream
  of the temporary file, of the upstream body, and of the client. \<open>ProcStderr text blank\<close>
  carries the trimmed text and whether it is empty.
\<close>

datatype Event =
    ToolWrites string
  | ProcStderr string bool
  | ProcError string
  | ProcClose "int option"
  | ReadData string
  | ReadEnd
  | ReadError string
  | ReadClose
  | BodyData string
  | BodyEnd
  | BodyError string
  | ClientDisconnect

definition showInt :: "int \<Rightarrow> string" where
  "showInt i = (if i < 0 then CHR ''-'' # showNat (nat (- i)) else showNat (nat i))"

definition showCode :: "int option \<Rightarrow> string" where
  "showCode code = (case code of None \<Rightarrow> ''null'' | Some i \<Rightarrow> showInt i)"

text \<open>\<open>proc.on('close', (code) => { ... })\<close>\<close>

definition onProcClose :: "int option \<Rightarrow> Stream \<Rightarrow> Stream" where
  "onProcClose code s =
     (if code \<noteq> Some 0 then
        guardedError 500 (''Video processing failed with code '' @ showCode code)
          (logLine (''yt-dlp process exited with code '' @ showCode code) s)
      else
        (let s1 = logLine ''yt-dlp processing completed successfully, streaming file...'' s;
             s2 = (case files s1 (outPath s1) of
                     Some content \<Rightarrow>
                       (if length content \<noteq> 0 \<and> \<not> headersSent s1
                        then setHeader ''Content-Length'' (showNat (length content)) s1
                        else s1)
                   | None \<Rightarrow> s1)
         in s2\<lparr>readOpen := True\<rparr>))"

text \<open>\<open>proc.on('error', ...)\<close>\<close>

definition onProcError :: "string \<Rightarrow> Stream \<Rightarrow> Stream" where
  "onProcError message s =
     guardedError 500 ''Failed to start video processing''
       (logLine (''yt-dlp process error: '' @ message) s)"

text \<open>\<open>read.on('error', ...)\<close> and \<open>read.on('close', ...)\<close>\<close>

definition onReadError :: "string \<Rightarrow> Stream \<Rightarrow> Stream" where
  "onReadError message s =
     unlinkQuietly (outPath s)
       (guardedError 500 ''Failed to read processed file''
          (logLine (''Error reading output file: '' @ message) s))"

definition onReadClose :: "Stream \<Rightarrow> Stream" where
  "onReadClose s = (unlinkQuietly (outPath s) s)\<lparr>readOpen := False\<rparr>"

text \<open>
  One event. An event of an emitter that has no listener registered changes nothing; the
  handler registers no listener for the client going away.
\<close>

fun step :: "Stream \<Rightarrow> Event \<Rightarrow> Stream" where
  "step s (ToolWrites content) =
     (if procOpen s then s\<lparr>files := (files s)(outPath s \<mapsto> content)\<rparr> else s)"
| "step s (ProcStderr text blank) =
     (if procOpen s \<and> \<not> blank then logLine (''[yt-dlp stderr]: '' @ text) s else s)"
| "step s (ProcError message) = (if procOpen s then onProcError message s else s)"
| "step s (ProcClose code) = (if procOpen s then (onProcClose code s)\<lparr>procOpen := False\<rparr> else s)"
| "step s (ReadData chunk) = (if readOpen s then writeChunk chunk s else s)"
| "step s ReadEnd = (if readOpen s then endResponse s else s)"
| "step s (ReadError message) = (if readOpen s then onReadError message s else s)"
| "step s ReadClose = (if readOpen s then onReadClose s else s)"
| "step s (BodyData chunk) = (if bodyOpen s then writeChunk chunk s else s)"
| "step s BodyEnd =
     (if bodyOpen s
      then (logLine ''Video streaming completed successfully'' (endResponse s))\<lparr>bodyOpen := False\<rparr>
      else s)"
| "step s (BodyError message) =
     (if bodyOpen s then logLine (''Error during video streaming: '' @ message) s else s)"
| "step s ClientDisconnect = s"

definition run :: "Stream \<Rightarrow> Event list \<Rightarrow> Stream" where
  "run s events = foldl step s events"

subsection \<open>The relay branch\<close>

text \<open>\<open>catch (error) { console.error(...); if (!res.headersSent) { res.status(500).json(...) } }\<close>\<close>

definition catchStream :: "string \<Rightarrow> Stream \<Rightarrow> Stream" where
  "catchStream message s =
     guardedError 500 (orElse message ''Failed to stream video'')
       (logLine (''Stream video error: '' @ message) s)"

definition extFromType :: "string \<Rightarrow> string \<Rightarrow> string" where
  "extFromType upstreamType fmt =
     (if str_includes upstreamType ''audio'' then ''mp3''
      else if str_includes upstreamType ''mp4'' then ''mp4'' else fmt)"

definition finalExt :: "string \<Rightarrow> string \<Rightarrow> string \<Rightarrow> string" where
  "finalExt extFromPath upstreamType fmt =
     orElse (if extFromPath \<noteq> [] \<and> length extFromPath \<le> 5 then extFromPath
             else extFromType upstreamType fmt) fmt"

definition relayHeaders :: "Surroundings \<Rightarrow> Request \<Rightarrow> UpstreamReply \<Rightarrow> string \<Rightarrow> Stream \<Rightarrow> Stream" where
  "relayHeaders sur req r extFromPath s =
     (let upstreamType = orElse (upContentType r)
                           (if reqFormat req = ''mp3'' then ''audio/mpeg'' else ''video/mp4'');
          s1 = setHeader ''Content-Disposition''
                 (''attachment; filename=\"'' @ baseName sur @ ''.''
                  @ finalExt extFromPath upstreamType (reqFormat req) @ ''\"'') s;
          s2 = (if upContentLength r \<noteq> [] then setHeader ''Content-Length'' (upContentLength r) s1
                else s1)
      in if reqRange req \<noteq> [] then setHeader ''Accept-Ranges'' ''bytes'' s2 else s2)"

definition startRelay :: "Surroundings \<Rightarrow> Request \<Rightarrow> string \<Rightarrow> Stream \<Rightarrow> Stream" where
  "startRelay sur req actualDownloadUrl s =
     (case fetchUpstream sur actualDownloadUrl (reqRange req) of
        Inl message \<Rightarrow> catchStream message s
      | Inr first \<Rightarrow>
          (case (if reqRange req = [] \<and> upOk first
                    \<and> (upContentLength first = [] \<or> upContentLength first = ''0'')
                 then fetchUpstream sur actualDownloadUrl ''bytes=0-''
                 else Inr first) of
             Inl message \<Rightarrow> catchStream message s
           | Inr r \<Rightarrow>
               if \<not> upOk r then catchStream (''Failed to fetch video: '' @ upStatusLine r) s
               else
                 (let upstreamType = orElse (upContentType r)
                        (if reqFormat req = ''mp3'' then ''audio/mpeg'' else ''video/mp4'');
                      s1 = setHeader ''Content-Type'' upstreamType s
                  in case urlPathExt sur actualDownloadUrl of
                       None \<Rightarrow> catchStream ''Invalid URL'' s1
                     | Some extFromPath \<Rightarrow>
                         (let s2 = relayHeaders sur req r extFromPath s1
                          in if upHasBody r then s2\<lparr>bodyOpen := True\<rparr>
                             else catchStream ''No video data received'' s2))))"

subsection \<open>The handler up to its first return\<close>

text \<open>
  An exception that nothing catches (the retry process failing to start inside
  \<open>generateDownloadLink\<close>) ends the handler without a response.
\<close>

definition streamVideo ::
  "Host \<Rightarrow> Surroundings \<Rightarrow> Request \<Rightarrow> (string \<Rightarrow> string option) \<Rightarrow> Stream" where
  "streamVideo host sur req fs =
     (let s0 = freshStream fs in
      if reqUrl req = [] \<or> reqQuality req = [] \<or> reqFormat req = []
      then sendError 400 ''Missing required parameters'' s0
      else
        (let s1 = logLine (''Streaming video: '' @ reqUrl req @ '', quality: '' @ reqQuality req
                           @ '', format: '' @ reqFormat req) s0
         in case generateDownloadLink host (reqUrl req) (reqQuality req) (reqFormat req) of
              (Rejected message, invocations) \<Rightarrow> catchStream message (s1\<lparr>spawned := invocations\<rparr>)
            | (Uncaught message, invocations) \<Rightarrow> s1\<lparr>spawned := invocations\<rparr>
            | (Resolved actualDownloadUrl, invocations) \<Rightarrow>
                (let s2 = logLine (''Actual download URL obtained: '' @ take 50 actualDownloadUrl
                                   @ ''...'') (s1\<lparr>spawned := invocations\<rparr>);
                     s3 = (if reqToken req \<noteq> []
                           then setHeader ''Set-Cookie'' (cookieValue (reqToken req)) s2 else s2);
                     s4 = setHeader ''Access-Control-Allow-Origin'' ''*'' s3;
                     s5 = setHeader ''Access-Control-Allow-Headers'' ''*'' s4;
                     s6 = setHeader ''Cache-Control'' ''no-cache'' s5
                 in if transcodes host req then startTranscode host sur req s6
                    else startRelay sur req actualDownloadUrl s6)))"

subsection \<open>Failures and the response\<close>

text \<open>
  The events that report a failure, and the part of the state that is the response as the
  client sees it.
\<close>

fun isFailure :: "Event \<Rightarrow> bool" where
  "isFailure (ProcError message) = True"
| "isFailure (ProcClose code) = (code \<noteq> Some 0)"
| "isFailure (ReadError message) = True"
| "isFailure (BodyError message) = True"
| "isFailure e = False"

definition response ::
  "Stream \<Rightarrow> bool \<times> nat \<times> (string \<times> string) list \<times> string option \<times> string list \<times> bool" where
  "response s = (headersSent s, statusCode s, headers s, jsonBody s, sentBytes s, finished s)"

subsection \<open>Examples for the streaming handler\<close>

text \<open>
  An audio request for a Vimeo link: the download link resolves, so the handler takes the
  transcode branch and spawns the tool with a temporary output file.
\<close>

definition linkOkHost :: Host where
  "linkOkHost =
     plainHost (scriptedTool (Closed (Some 0) ''https://cdn.example/a.m4a'' [])
       (Closed (Some 1) [] []) (Closed (Some 1) [] []))"

definition audioRequest :: Request where
  "audioRequest =
     \<lparr>reqUrl = ''https://vimeo.com/76979871'', reqQuality = ''Audio Only'', reqFormat = ''mp3'',
      reqToken = [], reqCompatible = [], reqRange = []\<rparr>"

definition plainSurroundings :: Surroundings where
  "plainSurroundings =
     \<lparr>cachedTitle = None, sanitizeTitle = (\<lambda>t. t), tmpDir = ''/tmp'', uniqueName = ''1-a'',
      pathJoin = (\<lambda>d f. d @ ''/'' @ f), ALLOW_COOKIES_FROM_BROWSER = [],
      urlPathExt = (\<lambda>u. Some []), fetchUpstream = (\<lambda>u r. Inl ''offline'')\<rparr>"

definition noFiles :: "string \<Rightarrow> string option" where
  "noFiles = (\<lambda>p. None)"

section \<open>Properties of the substring test\<close>

lemma includes_iff: "str_includes s t \<longleftrightarrow> (\<exists>pre suf. s = pre @ t @ suf)"
proof (induction s)
  case Nil
  then show ?case by auto
next
  case (Cons c s)
  have "sublist t (c # s) \<longleftrightarrow> prefix t (c # s) \<or> sublist t s"
    by (rule sublist_Cons_right)
  with Cons show ?case
    by (simp add: sublist_def)
qed

section \<open>Properties of platform detection\<close>

lemma platformName_table:
  "list_all (\<lambda>d. map_of canonicalPlatform d = Some (platformName d)) supportedPlatforms"
  by (simp add: supportedPlatforms_def canonicalPlatform_def platformName_def)

lemma platformName_supported:
  "d \<in> set supportedPlatforms \<Longrightarrow> map_of canonicalPlatform d = Some (platformName d)"
  using platformName_table by (simp add: list_all_iff)

lemma canonical_table_range:
  "list_all (\<lambda>(d, n). n \<in> set canonicalNames) canonicalPlatform"
  by (simp add: canonicalPlatform_def canonicalNames_def)

lemma canonical_range:
  "map_of canonicalPlatform d = Some n \<Longrightarrow> n \<in> set canonicalNames"
  using canonical_table_range by (auto simp: list_all_iff dest: map_of_SomeD)

lemma Unknown_not_canonical: "''Unknown'' \<notin> set canonicalNames"
  by (simp add: canonicalNames_def)

text \<open>
  Claim C2. For every URL: when some entry of the supported-domain list (short-link
  aliases included) is a substring of the URL, \<open>detectPlatform\<close> returns the canonical
  platform name of the first such entry; when no entry is a substring, it throws the
  \<open>Unsupported platform\<close> error. The function is a pure function of the URL, so it is
  deterministic and has no side effect.
\<close>

theorem detectPlatform_first_match:
  "(\<forall>i. i < length supportedPlatforms \<and> str_includes url (supportedPlatforms ! i)
        \<and> (\<forall>j<i. \<not> str_includes url (supportedPlatforms ! j))
      \<longrightarrow> (\<exists>n. map_of canonicalPlatform (supportedPlatforms ! i) = Some n
              \<and> detectPlatform url = Inr n))
   \<and> ((\<forall>p\<in>set supportedPlatforms. \<not> str_includes url p)
      \<longrightarrow> detectPlatform url = Inl UnsupportedPlatform)"
proof (intro conjI allI impI)
  fix i
  assume h: "i < length supportedPlatforms \<and> str_includes url (supportedPlatforms ! i)
        \<and> (\<forall>j<i. \<not> str_includes url (supportedPlatforms ! j))"
  then have "List.find (\<lambda>platform. str_includes url platform) supportedPlatforms
               = Some (supportedPlatforms ! i)"
    unfolding find_Some_iff by blast
  then have "detectPlatform url = Inr (platformName (supportedPlatforms ! i))"
    by (simp add: detectPlatform_def)
  moreover have "map_of canonicalPlatform (supportedPlatforms ! i)
                   = Some (platformName (supportedPlatforms ! i))"
    using h by (intro platformName_supported) simp
  ultimately show "\<exists>n. map_of canonicalPlatform (supportedPlatforms ! i) = Some n
              \<and> detectPlatform url = Inr n"
    by simp
next
  assume "\<forall>p\<in>set supportedPlatforms. \<not> str_includes url p"
  then have "List.find (\<lambda>platform. str_includes url platform) supportedPlatforms = None"
    unfolding find_None_iff by blast
  then show "detectPlatform url = Inl UnsupportedPlatform"
    by (simp add: detectPlatform_def)
qed

theorem detectPlatform_first_match_witness:
  "detectPlatform ''https://youtu.be/abc123'' = Inr ''YouTube''
   \<and> detectPlatform ''https://example.org/v'' = Inl UnsupportedPlatform"
proof -
  have a: "(1::nat) < length supportedPlatforms
      \<and> str_includes ''https://youtu.be/abc123'' (supportedPlatforms ! 1)
      \<and> (\<forall>j<1. \<not> str_includes ''https://youtu.be/abc123'' (supportedPlatforms ! j))"
    by (simp add: supportedPlatforms_def)
  have b: "\<forall>p\<in>set supportedPlatforms. \<not> str_includes ''https://example.org/v'' p"
    by (simp add: supportedPlatforms_def)
  have c: "map_of canonicalPlatform (supportedPlatforms ! 1) = Some ''YouTube''"
    by (simp add: supportedPlatforms_def canonicalPlatform_def)
  from detectPlatform_first_match [of "''https://youtu.be/abc123''"] a
  have "\<exists>n. map_of canonicalPlatform (supportedPlatforms ! 1) = Some n
              \<and> detectPlatform ''https://youtu.be/abc123'' = Inr n"
    by blast
  with c have "detectPlatform ''https://youtu.be/abc123'' = Inr ''YouTube''"
    by auto
  moreover from detectPlatform_first_match [of "''https://example.org/v''"] b
  have "detectPlatform ''https://example.org/v'' = Inl UnsupportedPlatform"
    by blast
  ultimately show ?thesis by simp
qed

text \<open>
  Claim C10. For every URL, \<open>detectPlatform\<close> never returns \<open>Unknown\<close>: it throws the
  \<open>Unsupported platform\<close> error exactly when no supported domain is a substring, and
  otherwise returns one of the ten canonical platform names; every entry of the
  supported-domain list is taken by one of the naming branches, so the trailing return
  is never reached.
\<close>

theorem detectPlatform_never_Unknown:
  "detectPlatform url \<noteq> Inr ''Unknown''
   \<and> ((detectPlatform url = Inl UnsupportedPlatform
        \<and> list_all (\<lambda>p. \<not> str_includes url p) supportedPlatforms)
      \<or> (\<exists>n. n \<in> set canonicalNames \<and> detectPlatform url = Inr n
             \<and> list_ex (\<lambda>p. str_includes url p) supportedPlatforms))"
proof (cases "List.find (\<lambda>platform. str_includes url platform) supportedPlatforms")
  case None
  then have "list_all (\<lambda>p. \<not> str_includes url p) supportedPlatforms"
    unfolding find_None_iff list_all_iff by blast
  with None show ?thesis
    by (simp add: detectPlatform_def)
next
  case (Some d)
  then have d: "d \<in> set supportedPlatforms" "str_includes url d"
    unfolding find_Some_iff by auto
  then have n: "platformName d \<in> set canonicalNames"
    using platformName_supported canonical_range by blast
  then have u: "platformName d \<noteq> ''Unknown''"
    using Unknown_not_canonical by metis
  have "list_ex (\<lambda>p. str_includes url p) supportedPlatforms"
    unfolding list_ex_iff using d by blast
  with Some n u show ?thesis
    by (simp add: detectPlatform_def)
qed

theorem detectPlatform_never_Unknown_witness:
  "detectPlatform ''https://pin.it/3xYz'' \<noteq> Inr ''Unknown''
   \<and> detectPlatform ''https://pin.it/3xYz'' = Inr ''Pinterest''"
proof -
  have "detectPlatform ''https://pin.it/3xYz'' = Inr ''Pinterest''"
    by (simp add: detectPlatform_def supportedPlatforms_def platformName_def)
  with detectPlatform_never_Unknown [of "''https://pin.it/3xYz''"] show ?thesis
    by simp
qed

section \<open>Properties of quality labels\<close>

lemma digit_cases:
  assumes "d < (10::nat)"
  shows "d = 0 \<or> d = 1 \<or> d = 2 \<or> d = 3 \<or> d = 4 \<or> d = 5 \<or> d = 6 \<or> d = 7 \<or> d = 8 \<or> d = 9"
  using assms by arith

lemma isDigit_digitChar: "d < 10 \<Longrightarrow> isDigit (digitChar d)"
  using digit_cases [of d] by (auto simp: isDigit_def digitChar_def)

lemma value_digitChar: "d < 10 \<Longrightarrow> (of_char (digitChar d) :: nat) - 48 = d"
  using digit_cases [of d] by (auto simp: digitChar_def)

lemma showNat_digits: "filter isDigit (showNat n) = showNat n"
proof (induction n rule: showNat.induct)
  case (1 n)
  show ?case
  proof (cases "n < 10")
    case True
    then show ?thesis
      by (subst (1 2) showNat.simps) (simp add: isDigit_digitChar)
  next
    case False
    with 1 show ?thesis
      by (subst (1 2) showNat.simps) (simp add: isDigit_digitChar)
  qed
qed

lemma digitsValue_snoc:
  "digitsValue (s @ [c]) = 10 * digitsValue s + ((of_char c :: nat) - 48)"
  by (simp add: digitsValue_def)

lemma digitsValue_showNat: "digitsValue (showNat n) = n"
proof (induction n rule: showNat.induct)
  case (1 n)
  show ?case
  proof (cases "n < 10")
    case True
    then show ?thesis
      by (subst showNat.simps) (simp add: digitsValue_def value_digitChar)
  next
    case False
    with 1 have "digitsValue (showNat (n div 10)) = n div 10"
      by simp
    with False show ?thesis
      by (subst showNat.simps) (simp add: digitsValue_snoc value_digitChar)
  qed
qed

lemma labelResolution_plain: "labelResolution (showNat n @ ''p'') = n"
  by (simp add: labelResolution_def showNat_digits digitsValue_showNat isDigit_def)

lemma labelResolution_qualityLabel:
  "labelResolution (qualityLabel h) =
     (if 2160 \<le> h then 42160 else if 1440 \<le> h then 21440
      else if 1080 \<le> h then 1080 else if 720 \<le> h then 720 else h)"
  by (simp add: qualityLabel_def labelResolution_plain)
     (simp add: labelResolution_def isDigit_def digitsValue_def)

lemma labelResolution_pos: "0 < h \<Longrightarrow> 0 < labelResolution (qualityLabel h)"
  by (simp add: labelResolution_qualityLabel)

lemma labelResolution_fixed:
  "labelResolution ''Audio Only'' = 0" "labelResolution ''audio'' = 0"
  by (simp_all add: labelResolution_def isDigit_def digitsValue_def)

lemma qualityLabel_not_audio:
  "0 < h \<Longrightarrow> qualityLabel h \<noteq> ''Audio Only''" "0 < h \<Longrightarrow> qualityLabel h \<noteq> ''audio''"
  using labelResolution_pos [of h] labelResolution_fixed by auto

lemma qualityLabel_cases:
  "qualityLabel h = ''4K (2160p)'' \<or> qualityLabel h = ''2K (1440p)''
   \<or> qualityLabel h = ''1080p HD'' \<or> qualityLabel h = ''720p HD''
   \<or> (h < 720 \<and> qualityLabel h = showNat h @ ''p'')"
  by (simp add: qualityLabel_def)


section \<open>Properties of the comparator sort\<close>

lemma set_insertBy: "set (insertBy cmp x ys) = insert x (set ys)"
  by (induction ys) auto

lemma set_sortBy: "set (sortBy cmp xs) = set xs"
  unfolding sortBy_def by (induction xs) (simp_all add: set_insertBy)

lemma length_insertBy: "length (insertBy cmp x ys) = Suc (length ys)"
  by (induction ys) auto

lemma length_sortBy: "length (sortBy cmp xs) = length xs"
  unfolding sortBy_def by (induction xs) (simp_all add: length_insertBy)






section \<open>Properties of the quality map\<close>

lemma mapSet_keys:
  "map fst (mapSet k v m) = (if k \<in> fst ` set m then map fst m else map fst m @ [k])"
  by (induction m) (auto simp: rev_image_eqI)

lemma mapSet_subset: "set (mapSet k v m) \<subseteq> insert (k, v) (set m)"
  by (induction m) (auto split: if_splits)

lemma mapSet_distinct: "distinct (map fst m) \<Longrightarrow> distinct (map fst (mapSet k v m))"
  by (simp add: mapSet_keys)

lemma map_of_mapSet: "map_of (mapSet k v m) = (map_of m)(k \<mapsto> v)"
  by (induction m) (auto simp: fun_eq_iff)

lemma mapSet_new: "k \<notin> fst ` set m \<Longrightarrow> mapSet k v m = m @ [(k, v)]"
  by (induction m) auto

lemma mapSet_append_old:
  "k \<in> fst ` set m \<Longrightarrow> mapSet k v (m @ n) = mapSet k v m @ n"
  by (induction m) (auto simp: rev_image_eqI)

lemma mapSet_append_new:
  "k \<notin> fst ` set m \<Longrightarrow> mapSet k v (m @ n) = m @ mapSet k v n"
  by (induction m) auto

lemma entryOK_video: "quality v = qualityLabel h \<Longrightarrow> 0 < h \<Longrightarrow> entryOK (qualityLabel h, v)"
  unfolding entryOK_def by auto

lemma list_all_mapSet: "list_all P m \<Longrightarrow> P (k, v) \<Longrightarrow> list_all P (mapSet k v m)"
  by (induction m) auto

lemma wellLabelled_mapSet:
  assumes "wellLabelled m" "quality v = qualityLabel h" "0 < h"
  shows "wellLabelled (mapSet (qualityLabel h) v m)"
  using assms unfolding wellLabelled_def
  by (simp add: mapSet_distinct list_all_mapSet entryOK_video)

lemma wellLabelled_addFormat: "wellLabelled m \<Longrightarrow> wellLabelled (addFormat render f m)"
  unfolding addFormat_def
  by (simp add: Let_def wellLabelled_mapSet split: option.splits)

lemma wellLabelled_fold:
  "wellLabelled m \<Longrightarrow> wellLabelled (fold (addFormat render) fs m)"
  by (induction fs arbitrary: m) (simp_all add: wellLabelled_addFormat)

lemma wellLabelled_qualityMapOf: "wellLabelled (qualityMapOf render fs)"
  unfolding qualityMapOf_def
  by (rule wellLabelled_fold) (simp add: wellLabelled_def entryOK_def)

lemma quality_audioOnly: "quality audioOnly = ''Audio Only''"
  by (simp add: audioOnly_def)

lemma entryOK_quality:
  assumes "entryOK e"
  shows "quality (snd e) = (if fst e = ''audio'' then ''Audio Only'' else fst e)"
proof (cases "fst e = ''audio''")
  case True
  have "\<not> (\<exists>h. 0 < h \<and> ''audio'' = qualityLabel h)"
    using qualityLabel_not_audio(2) by metis
  with assms True have "snd e = audioOnly"
    unfolding entryOK_def by metis
  with True show ?thesis
    by (simp add: quality_audioOnly)
next
  case False
  with assms show ?thesis
    unfolding entryOK_def by metis
qed

lemma entryOK_key: "entryOK e \<Longrightarrow> fst e \<noteq> ''Audio Only''"
proof
  assume ok: "entryOK e" and k: "fst e = ''Audio Only''"
  have "''Audio Only'' \<noteq> ''audio''" by simp
  with ok k have "\<exists>h. 0 < h \<and> ''Audio Only'' = qualityLabel h"
    unfolding entryOK_def by metis
  then show False
    using qualityLabel_not_audio(1) by metis
qed


lemma wellLabelled_qualities:
  assumes "wellLabelled m"
  shows "distinct (map quality (map snd m))"
proof -
  let ?g = "\<lambda>k. if k = ''audio'' then ''Audio Only'' else k"
  have ok: "\<And>e. e \<in> set m \<Longrightarrow> entryOK e"
    using assms unfolding wellLabelled_def list_all_iff by blast
  have eq: "map quality (map snd m) = map ?g (map fst m)"
    using ok by (simp add: entryOK_quality)
  have inj: "inj_on ?g (set (map fst m))"
  proof (rule inj_onI)
    fix x y
    assume x: "x \<in> set (map fst m)" and y: "y \<in> set (map fst m)" and eq: "?g x = ?g y"
    from x y ok have "x \<noteq> ''Audio Only''" "y \<noteq> ''Audio Only''"
      using entryOK_key by auto
    with eq show "x = y"
      by (metis (full_types))
  qed
  have "distinct (map fst m)"
    using assms unfolding wellLabelled_def by simp
  with inj have "distinct (map ?g (map fst m))"
    unfolding distinct_map [of ?g "map fst m"] by blast
  then show ?thesis
    unfolding eq .
qed





section \<open>Properties of extractQualities\<close>

lemma distinct_map_insertBy:
  "distinct (map f (insertBy cmp x ys)) \<longleftrightarrow> f x \<notin> f ` set ys \<and> distinct (map f ys)"
  by (induction ys) (auto simp: set_insertBy)

lemma distinct_map_sortBy: "distinct (map f (sortBy cmp xs)) \<longleftrightarrow> distinct (map f xs)"
  unfolding sortBy_def
  by (induction xs) (simp_all add: distinct_map_insertBy set_sortBy [unfolded sortBy_def])

lemma extractQualities_set:
  "set (extractQualities render fs) = snd ` set (qualityMapOf render fs)"
  by (simp add: extractQualities_def set_sortBy)

lemma extractQualities_distinct: "distinct (map quality (extractQualities render fs))"
  unfolding extractQualities_def distinct_map_sortBy
  by (rule wellLabelled_qualities) (rule wellLabelled_qualityMapOf)







section \<open>The replacement rule of extractQualities\<close>

lemma find_unique:
  assumes "x \<in> set xs" "P x" "\<And>y. y \<in> set xs \<Longrightarrow> P y \<Longrightarrow> y = x"
  shows "List.find P xs = Some x"
  using assms
proof (induction xs)
  case Nil
  then show ?case by simp
next
  case (Cons a xs)
  show ?case
  proof (cases "P a")
    case True
    then have "a = x" using Cons.prems(3) by simp
    with True show ?thesis by simp
  next
    case False
    then have "x \<in> set xs" using Cons.prems(1,2) by auto
    moreover have "y = x" if "y \<in> set xs" "P y" for y
      using that Cons.prems(3) [of y] by simp
    ultimately have "List.find P xs = Some x"
      using Cons.prems(2) by (intro Cons.IH)
    with False show ?thesis by simp
  qed
qed

lemma optionFor_extractQualities:
  assumes "0 < h"
  shows "optionFor (qualityLabel h) (extractQualities render fs)
           = map_of (qualityMapOf render fs) (qualityLabel h)"
proof -
  let ?q = "qualityLabel h" and ?m = "qualityMapOf render fs"
  have wl: "distinct (map fst ?m)" and ok: "\<And>e. e \<in> set ?m \<Longrightarrow> entryOK e"
    using wellLabelled_qualityMapOf [of render fs]
    unfolding wellLabelled_def list_all_iff by blast+
  have q: "?q \<noteq> ''audio''" "?q \<noteq> ''Audio Only''"
    using assms qualityLabel_not_audio by blast+
  have key: "fst e = ?q" if "e \<in> set ?m" "quality (snd e) = ?q" for e
    using entryOK_quality [OF ok [OF that(1)]] that(2) q by metis
  show ?thesis
  proof (cases "map_of ?m ?q")
    case None
    have "\<not> quality v = ?q" if "v \<in> set (extractQualities render fs)" for v
    proof
      assume "quality v = ?q"
      moreover from that obtain e where "e \<in> set ?m" "v = snd e"
        unfolding extractQualities_set by blast
      ultimately have "e \<in> set ?m" "fst e = ?q"
        using key by blast+
      then have "?q \<in> fst ` set ?m" by force
      with None show False
        by (simp add: map_of_eq_None_iff)
    qed
    then have "List.find (\<lambda>opt. quality opt = ?q) (extractQualities render fs) = None"
      unfolding find_None_iff by blast
    with None show ?thesis
      by (simp add: optionFor_def)
  next
    case (Some v)
    then have mem: "(?q, v) \<in> set ?m"
      by (rule map_of_SomeD)
    have qv: "quality v = ?q"
      using entryOK_quality [OF ok [OF mem]] q by simp
    have vin: "v \<in> set (extractQualities render fs)"
      unfolding extractQualities_set using mem by force
    have uniq: "y = v" if "y \<in> set (extractQualities render fs)" "quality y = ?q" for y
    proof -
      from that obtain e where e: "e \<in> set ?m" "y = snd e"
        unfolding extractQualities_set by blast
      with that key have "fst e = ?q" by blast
      with e have "(?q, y) \<in> set ?m" by (metis prod.collapse)
      with wl have "map_of ?m ?q = Some y" by simp
      with Some show ?thesis by simp
    qed
    have "List.find (\<lambda>opt. quality opt = ?q) (extractQualities render fs) = Some v"
    proof (rule find_unique)
      show "v \<in> set (extractQualities render fs)" by (rule vin)
      show "quality v = ?q" by (rule qv)
      show "y = v" if "y \<in> set (extractQualities render fs)" "quality y = ?q" for y
        using that by (rule uniq)
    qed
    with Some show ?thesis
      by (simp add: optionFor_def)
  qed
qed

lemma qualityMapOf_snoc:
  "qualityMapOf render (fs @ [f]) = addFormat render f (qualityMapOf render fs)"
  by (simp add: qualityMapOf_def)

lemma optionFor_step:
  assumes "height f = Some h" "0 < h" "vcodec f \<noteq> Some ''none''"
  shows "optionFor (qualityLabel h) (extractQualities render (fs @ [f])) =
     (let entry = \<lparr>quality = qualityLabel h,
                    format = (case ext f of Some x \<Rightarrow> x | None \<Rightarrow> ''mp4''),
                    fileSize = declaredSize render f\<rparr>
      in case optionFor (qualityLabel h) (extractQualities render fs) of
           None \<Rightarrow> Some entry
         | Some existing \<Rightarrow>
             if (fileSize existing = ''Unknown'' \<and> fileSize entry \<noteq> ''Unknown'')
                \<or> (format entry = ''mp4'' \<and> format existing \<noteq> ''mp4'')
             then Some entry else Some existing)"
  unfolding optionFor_extractQualities [OF assms(2)] qualityMapOf_snoc
  using assms
  by (simp add: addFormat_def Let_def map_of_mapSet split: option.splits)

section \<open>Properties of the background merge\<close>

lemma refines_refl: "refines c c"
  by (simp add: refines_def)

lemma refines_trans: "refines a b \<Longrightarrow> refines b c \<Longrightarrow> refines a c"
  unfolding refines_def by metis

lemma refines_overlay: "refines c (overlay c q)"
  by (simp add: refines_def overlay_def Let_def)

lemma overlay_refined: "refines c q \<Longrightarrow> overlay c q = q"
  unfolding refines_def overlay_def Let_def
  by (cases c; cases q) auto

lemma quality_overlay: "quality (overlay c q) = quality c"
  by (simp add: overlay_def Let_def)

lemma keyed_append: "keyed (m @ n) \<longleftrightarrow> keyed m \<and> keyed n"
  by (simp add: keyed_def)

lemma keyed_mapSet: "keyed m \<Longrightarrow> quality v = k \<Longrightarrow> keyed (mapSet k v m)"
  unfolding keyed_def by (rule list_all_mapSet) simp_all

lemma keyed_lookup:
  assumes "keyed m" "map_of m k = Some v"
  shows "quality v = k"
proof -
  have "(k, v) \<in> set m"
    using assms(2) by (rule map_of_SomeD)
  with assms(1) show ?thesis
    unfolding keyed_def list_all_iff by force
qed

lemma refined_keys: "list_all2 refinedEntry m n \<Longrightarrow> map fst n = map fst m"
  by (induction rule: list_all2_induct) (simp_all add: refinedEntry_def)

lemma refined_mapSet:
  "list_all2 refinedEntry m n \<Longrightarrow> map_of n k = Some v \<Longrightarrow> refines v w
     \<Longrightarrow> list_all2 refinedEntry m (mapSet k w n)"
proof (induction rule: list_all2_induct)
  case Nil
  then show ?case by simp
next
  case (Cons a m b n)
  show ?case
  proof (cases "fst b = k")
    case True
    with Cons.prems have "refines (snd b) w" by simp
    with Cons.hyps(1) have "refines (snd a) w"
      unfolding refinedEntry_def using refines_trans by blast
    with True Cons.hyps show ?thesis
      by (cases b) (simp add: refinedEntry_def)
  next
    case False
    with Cons show ?thesis
      by (cases b) simp
  qed
qed

lemma overlaid_refl: "distinct (map fst m) \<Longrightarrow> overlaid m m"
proof -
  assume d: "distinct (map fst m)"
  have "list_all2 refinedEntry m m"
    by (simp add: list_all2_same refinedEntry_def refines_refl)
  with d have "m = m @ [] \<and> list_all2 refinedEntry m m
               \<and> distinct (map fst (m @ [])) \<and> keyed []"
    by (simp add: keyed_def)
  then show ?thesis
    unfolding overlaid_def by blast
qed

lemma overlayOriginal_Some:
  "map_of m (quality q) = Some v \<Longrightarrow> overlayOriginal q m = mapSet (quality q) (overlay v q) m"
  by (simp add: overlayOriginal_def)

lemma overlayOriginal_None:
  "map_of m (quality q) = None \<Longrightarrow> overlayOriginal q m = mapSet (quality q) q m"
  by (simp add: overlayOriginal_def)

lemma overlaid_step:
  assumes "overlaid base m"
  shows "overlaid base (overlayOriginal q m)"
proof -
  from assms obtain n e where m: "m = n @ e" and rel: "list_all2 refinedEntry base n"
    and d: "distinct (map fst (base @ e))" and ke: "keyed e"
    unfolding overlaid_def by blast
  have keys: "map fst n = map fst base"
    using rel by (rule refined_keys)
  let ?k = "quality q"
  show ?thesis
  proof (cases "?k \<in> fst ` set n")
    case True
    then obtain v where v: "map_of n ?k = Some v"
      by (metis domD dom_map_of_conv_image_fst)
    then have look: "map_of m ?k = Some v"
      unfolding m by simp
    have "overlayOriginal q m = mapSet ?k (overlay v q) (n @ e)"
      using overlayOriginal_Some [OF look] unfolding m .
    then have "overlayOriginal q m = mapSet ?k (overlay v q) n @ e"
      using True by (simp add: mapSet_append_old)
    moreover have "list_all2 refinedEntry base (mapSet ?k (overlay v q) n)"
      using rel v refines_overlay by (rule refined_mapSet)
    ultimately show ?thesis
      unfolding overlaid_def using d ke by blast
  next
    case False
    show ?thesis
    proof (cases "map_of e ?k")
      case None
      with False have "map_of m ?k = None"
        unfolding m by (simp add: map_of_eq_None_iff)
      then have "overlayOriginal q m = mapSet ?k q (n @ e)"
        using overlayOriginal_None unfolding m by blast
      moreover have "?k \<notin> fst ` set (n @ e)"
        using False None by (simp add: map_of_eq_None_iff image_Un)
      ultimately have eq: "overlayOriginal q m = n @ (e @ [(?k, q)])"
        using mapSet_new [of ?k "n @ e" q] by simp
      have "?k \<notin> set (map fst base)"
        using False keys by (metis set_map)
      with None d have "distinct (map fst (base @ (e @ [(?k, q)])))"
        by (simp add: map_of_eq_None_iff)
      moreover have "keyed (e @ [(?k, q)])"
        using ke by (simp add: keyed_def)
      ultimately show ?thesis
        unfolding overlaid_def using eq rel by blast
    next
      case (Some v)
      with False have look: "map_of m ?k = Some v"
        unfolding m by (simp add: map_add_Some_iff map_of_eq_None_iff)
      have "overlayOriginal q m = mapSet ?k (overlay v q) (n @ e)"
        using overlayOriginal_Some [OF look] unfolding m .
      then have eq: "overlayOriginal q m = n @ mapSet ?k (overlay v q) e"
        using False by (simp add: mapSet_append_new)
      have "?k \<in> fst ` set e"
        using Some by (metis domI dom_map_of_conv_image_fst)
      then have "map fst (mapSet ?k (overlay v q) e) = map fst e"
        by (simp add: mapSet_keys)
      with d have "distinct (map fst (base @ mapSet ?k (overlay v q) e))"
        by simp
      moreover have "keyed (mapSet ?k (overlay v q) e)"
        using ke keyed_lookup [OF ke Some] by (intro keyed_mapSet) (simp_all add: quality_overlay)
      ultimately show ?thesis
        unfolding overlaid_def using eq rel by blast
    qed
  qed
qed

lemma overlaid_fold: "overlaid base m \<Longrightarrow> overlaid base (fold overlayOriginal qs m)"
  by (induction qs arbitrary: m) (simp_all add: overlaid_step)

lemma replay_refined:
  assumes "list_all2 refinedEntry m n" "keyed m" "distinct (map fst m)"
    "fst ` set p \<inter> fst ` set m = {}"
  shows "fold overlayOriginal (map snd n) (p @ m) = p @ n"
  using assms
proof (induction arbitrary: p rule: list_all2_induct)
  case Nil
  then show ?case by simp
next
  case (Cons a m b n)
  let ?k = "fst a"
  have ka: "quality (snd a) = ?k" and km: "keyed m"
    using Cons.prems(1) by (simp_all add: keyed_def)
  have fb: "fst b = ?k" and rb: "refines (snd a) (snd b)"
    using Cons.hyps(1) by (simp_all add: refinedEntry_def)
  have qb: "quality (snd b) = ?k"
    using rb ka by (simp add: refines_def)
  have notp: "?k \<notin> fst ` set p"
    using Cons.prems(3) by auto
  have "map_of (p @ a # m) ?k = Some (snd a)"
    using notp by (cases a) (simp add: map_add_Some_iff map_of_eq_None_iff)
  then have "overlayOriginal (snd b) (p @ a # m) = mapSet ?k (overlay (snd a) (snd b)) (p @ a # m)"
    using overlayOriginal_Some [of "p @ a # m" "snd b" "snd a"] qb by simp
  also have "\<dots> = p @ mapSet ?k (snd b) (a # m)"
    using notp rb by (simp add: mapSet_append_new overlay_refined)
  also have "\<dots> = (p @ [b]) @ m"
    using fb by (cases a; cases b) simp
  finally have step: "overlayOriginal (snd b) (p @ a # m) = (p @ [b]) @ m" .
  have "fst ` set (p @ [b]) \<inter> fst ` set m = {}"
    using Cons.prems(2,3) fb by auto
  then have "fold overlayOriginal (map snd n) ((p @ [b]) @ m) = (p @ [b]) @ n"
    using Cons.prems(2) km by (intro Cons.IH) simp_all
  with step show ?case by simp
qed

lemma replay_new:
  assumes "keyed e" "distinct (map fst e)" "fst ` set e \<inter> fst ` set n = {}"
  shows "fold overlayOriginal (map snd e) n = n @ e"
  using assms
proof (induction e arbitrary: n)
  case Nil
  then show ?case by simp
next
  case (Cons x e)
  have kx: "quality (snd x) = fst x" and ke: "keyed e"
    using Cons.prems(1) by (simp_all add: keyed_def)
  have "fst x \<notin> fst ` set n"
    using Cons.prems(3) by auto
  then have none: "map_of n (quality (snd x)) = None"
    using kx by (simp add: map_of_eq_None_iff)
  have "overlayOriginal (snd x) n = mapSet (fst x) (snd x) n"
    using overlayOriginal_None [OF none] kx by simp
  also have "\<dots> = n @ [x]"
    using \<open>fst x \<notin> fst ` set n\<close> by (simp add: mapSet_new)
  finally have step: "overlayOriginal (snd x) n = n @ [x]" .
  have "fst ` set e \<inter> fst ` set (n @ [x]) = {}"
    using Cons.prems(2,3) by auto
  then have "fold overlayOriginal (map snd e) (n @ [x]) = (n @ [x]) @ e"
    using ke Cons.prems(2) by (intro Cons.IH) simp_all
  with step show ?case by simp
qed

lemma replay_overlaid:
  assumes "overlaid base m" "keyed base"
  shows "fold overlayOriginal (map snd m) base = m"
proof -
  from assms obtain n e where m: "m = n @ e" and rel: "list_all2 refinedEntry base n"
    and d: "distinct (map fst (base @ e))" and ke: "keyed e"
    unfolding overlaid_def by blast
  have keys: "map fst n = map fst base"
    using rel by (rule refined_keys)
  have "fold overlayOriginal (map snd n) ([] @ base) = [] @ n"
    using rel assms(2) d by (intro replay_refined) simp_all
  then have first: "fold overlayOriginal (map snd n) base = n"
    by simp
  have "fst ` set n = fst ` set base"
    using keys by (metis set_map)
  then have "fst ` set e \<inter> fst ` set n = {}"
    using d by auto
  then have "fold overlayOriginal (map snd e) n = n @ e"
    using ke d by (intro replay_new) simp_all
  with first show ?thesis
    unfolding m by simp
qed

lemma probed_map:
  "keyed m \<Longrightarrow> distinct (map fst m)
     \<Longrightarrow> keyed (fold (\<lambda>p. mapSet (quality p) p) ps m)
         \<and> distinct (map fst (fold (\<lambda>p. mapSet (quality p) p) ps m))"
  by (induction ps arbitrary: m) (simp_all add: keyed_mapSet mapSet_distinct)

lemma mergeQualities_idem:
  "mergeQualities probed (mergeQualities probed orig) = mergeQualities probed orig"
proof -
  let ?base = "fold (\<lambda>p. mapSet (quality p) p) probed []"
  have base: "keyed ?base" "distinct (map fst ?base)"
    using probed_map [of "[]" probed] by (simp_all add: keyed_def)
  then have "overlaid ?base (fold overlayOriginal orig ?base)"
    by (intro overlaid_fold overlaid_refl)
  then have "fold overlayOriginal (map snd (fold overlayOriginal orig ?base)) ?base
               = fold overlayOriginal orig ?base"
    using base(1) by (rule replay_overlaid)
  then show ?thesis
    by (simp add: mergeQualities_def)
qed

text \<open>
  Claim C6. \<open>extractQualities\<close> yields at most one option per quality label. When a
  further format maps to a label that already has an entry, the new entry replaces the old
  one if the old size is \<open>Unknown\<close> and the new size is known, or if the new container
  is mp4 and the old one is not. The background merge is idempotent: merging a probe
  result into the outcome of merging it once changes nothing.
\<close>

theorem qualities_unique_replaced_idempotent:
  "distinct (map quality (extractQualities render formats))
   \<and> (\<forall>f h existing.
         height f = Some h \<and> 0 < h \<and> vcodec f \<noteq> Some ''none''
         \<and> optionFor (qualityLabel h) (extractQualities render formats) = Some existing
         \<and> ((fileSize existing = ''Unknown'' \<and> declaredSize render f \<noteq> ''Unknown'')
            \<or> ((case ext f of Some x \<Rightarrow> x | None \<Rightarrow> ''mp4'') = ''mp4''
               \<and> format existing \<noteq> ''mp4''))
       \<longrightarrow> optionFor (qualityLabel h) (extractQualities render (formats @ [f]))
             = Some \<lparr>quality = qualityLabel h,
                      format = (case ext f of Some x \<Rightarrow> x | None \<Rightarrow> ''mp4''),
                      fileSize = declaredSize render f\<rparr>)
   \<and> mergeQualities probed (mergeQualities probed orig) = mergeQualities probed orig"
proof (intro conjI allI impI)
  show "distinct (map quality (extractQualities render formats))"
    by (rule extractQualities_distinct)
next
  show "mergeQualities probed (mergeQualities probed orig) = mergeQualities probed orig"
    by (rule mergeQualities_idem)
next
  fix f h existing
  assume a: "height f = Some h \<and> 0 < h \<and> vcodec f \<noteq> Some ''none''
         \<and> optionFor (qualityLabel h) (extractQualities render formats) = Some existing
         \<and> ((fileSize existing = ''Unknown'' \<and> declaredSize render f \<noteq> ''Unknown'')
            \<or> ((case ext f of Some x \<Rightarrow> x | None \<Rightarrow> ''mp4'') = ''mp4''
               \<and> format existing \<noteq> ''mp4''))"
  then have "height f = Some h" "0 < h" "vcodec f \<noteq> Some ''none''"
    by blast+
  from optionFor_step [OF this, of render formats] a
  show "optionFor (qualityLabel h) (extractQualities render (formats @ [f]))
             = Some \<lparr>quality = qualityLabel h,
                      format = (case ext f of Some x \<Rightarrow> x | None \<Rightarrow> ''mp4''),
                      fileSize = declaredSize render f\<rparr>"
    by (auto simp: Let_def)
qed

theorem qualities_unique_replaced_idempotent_witness:
  "optionFor ''1080p HD'' (extractQualities (\<lambda>n. showNat n @ '' B'')
     [\<lparr>height = Some 1080, vcodec = Some ''vp9'', ext = Some ''webm'',
        filesize = None, filesize_approx = None\<rparr>,
      \<lparr>height = Some 1080, vcodec = Some ''avc1'', ext = Some ''mp4'',
        filesize = Some 1000, filesize_approx = None\<rparr>])
   = Some \<lparr>quality = ''1080p HD'', format = ''mp4'', fileSize = ''1000 B''\<rparr>"
proof -
  let ?r = "\<lambda>n. showNat n @ '' B''"
  let ?f1 = "\<lparr>height = Some 1080, vcodec = Some ''vp9'', ext = Some ''webm'',
        filesize = None, filesize_approx = None\<rparr>"
  let ?f2 = "\<lparr>height = Some 1080, vcodec = Some ''avc1'', ext = Some ''mp4'',
        filesize = Some 1000, filesize_approx = None\<rparr>"
  have l: "qualityLabel 1080 = ''1080p HD''"
    by (simp add: qualityLabel_def)
  have s: "declaredSize ?r ?f2 = ''1000 B''"
    by (simp add: declaredSize_def formatFileSize_def showNat.simps digitChar_def)
  have e: "optionFor (qualityLabel 1080) (extractQualities ?r [?f1])
             = Some \<lparr>quality = ''1080p HD'', format = ''webm'', fileSize = ''Unknown''\<rparr>"
    by (simp add: l optionFor_def extractQualities_def qualityMapOf_def addFormat_def
        declaredSize_def sortBy_def Let_def compareQuality_def audioOnly_def)
  have "height ?f2 = Some 1080 \<and> (0::nat) < 1080 \<and> vcodec ?f2 \<noteq> Some ''none''
         \<and> optionFor (qualityLabel 1080) (extractQualities ?r [?f1])
             = Some \<lparr>quality = ''1080p HD'', format = ''webm'', fileSize = ''Unknown''\<rparr>
         \<and> ((fileSize \<lparr>quality = ''1080p HD'', format = ''webm'', fileSize = ''Unknown''\<rparr> = ''Unknown''
              \<and> declaredSize ?r ?f2 \<noteq> ''Unknown'')
            \<or> ((case ext ?f2 of Some x \<Rightarrow> x | None \<Rightarrow> ''mp4'') = ''mp4''
               \<and> format \<lparr>quality = ''1080p HD'', format = ''webm'', fileSize = ''Unknown''\<rparr> \<noteq> ''mp4''))"
    using e s by simp
  with qualities_unique_replaced_idempotent [of ?r "[?f1]"]
  have "optionFor (qualityLabel 1080) (extractQualities ?r ([?f1] @ [?f2]))
             = Some \<lparr>quality = qualityLabel 1080,
                      format = (case ext ?f2 of Some x \<Rightarrow> x | None \<Rightarrow> ''mp4''),
                      fileSize = declaredSize ?r ?f2\<rparr>"
    by blast
  then show ?thesis
    by (simp add: l s)
qed

section \<open>Properties of generateDownloadLink\<close>

lemma link_pinterest_fallback:
  assumes "spawn host (ytdlpCmd host) (linkArgs host url qlty fmt) = Closed code output errorOutput"
    and "code \<noteq> Some 0"
    and "pinterestJsonFailure url errorOutput"
    and "spawn host (ytdlpCmd host) (fallbackArgs url) = Closed fallbackCode fallbackOutput fallbackErr"
  shows "generateDownloadLink host url qlty fmt =
           (if fallbackCode = Some 0 \<and> trim host fallbackOutput \<noteq> []
            then Resolved (trim host fallbackOutput) else Resolved demoUrl,
            [(ytdlpCmd host, linkArgs host url qlty fmt), (ytdlpCmd host, fallbackArgs url)])"
  using assms unfolding generateDownloadLink_def Let_def by simp

lemma link_retry:
  assumes "spawn host (ytdlpCmd host) (linkArgs host url qlty fmt) = Closed code output errorOutput"
    and "code \<noteq> Some 0"
    and "\<not> pinterestJsonFailure url errorOutput"
    and "formatUnavailable errorOutput"
    and "spawn host (ytdlpCmd host) (retryArgs host url) = Closed retryCode retryOut retryErr"
  shows "generateDownloadLink host url qlty fmt =
           (if retryCode = Some 0 then
              (if firstLine (trim host retryOut) \<noteq> [] then Resolved (firstLine (trim host retryOut))
               else Rejected ''Retry succeeded but no URL returned'')
            else if isTikTokUrl url \<or> isInstagramUrl url then Resolved demoUrl
            else Rejected (''Download link generation failed after retry: ''
                           @ (if retryErr \<noteq> [] then retryErr else errorOutput)),
            [(ytdlpCmd host, linkArgs host url qlty fmt), (ytdlpCmd host, retryArgs host url)])"
  using assms unfolding generateDownloadLink_def Let_def by simp

lemma link_no_retry:
  assumes "spawn host (ytdlpCmd host) (linkArgs host url qlty fmt) = Closed code output errorOutput"
    and "code \<noteq> Some 0"
    and "\<not> pinterestJsonFailure url errorOutput"
    and "\<not> formatUnavailable errorOutput"
  shows "generateDownloadLink host url qlty fmt =
           (if isTikTokUrl url \<or> isInstagramUrl url \<or> signInRequired errorOutput
            then Resolved demoUrl
            else Rejected (''Download link generation failed: '' @ errorOutput),
            [(ytdlpCmd host, linkArgs host url qlty fmt)])"
  using assms unfolding generateDownloadLink_def Let_def by simp

lemmas link_eval =
  plainHost_def scriptedTool_def linkArgs_def retryArgs_def fallbackArgs_def cookieArgs_def
  ffmpegArgs_def ytdlpCmd_def userAgent_def getFormatSelector_def isTikTokUrl_def
  isInstagramUrl_def isPinterestUrl_def isDailymotionUrl_def

lemmas text_eval =
  testIgnoreCase_def asciiLower_def formatUnavailable_def jsonParseFailure_def
  pinterestJsonFailure_def signInRequired_def isPinterestUrl_def firstLine_def asciiTrim_def
  isSpace_def




text \<open>
  Claim C4, amended. When the first invocation exits non-zero and the second invocation
  that applies (the Pinterest generic-extractor fallback, or the permissive retry) fails
  as well, \<open>generateDownloadLink\<close> resolves with the fixed sample URL if the URL is a
  Pinterest URL whose stderr has a JSON parse signature, or the URL is a TikTok or
  Instagram URL, or no retry applied and stderr has a sign-in signature; in every other
  case it rejects with a message that ends with the tool's stderr (the retry's, when it
  is not empty).
\<close>

theorem generateDownloadLink_failure_outcome:
  assumes "spawn host (ytdlpCmd host) (linkArgs host url qlty fmt) = Closed code output errorOutput"
    and "code \<noteq> Some 0"
    and "pinterestJsonFailure url errorOutput \<Longrightarrow>
           \<exists>fallbackCode fallbackOutput fallbackErr.
             spawn host (ytdlpCmd host) (fallbackArgs url)
               = Closed fallbackCode fallbackOutput fallbackErr
             \<and> \<not> (fallbackCode = Some 0 \<and> trim host fallbackOutput \<noteq> [])"
    and "\<not> pinterestJsonFailure url errorOutput \<Longrightarrow> formatUnavailable errorOutput \<Longrightarrow>
           \<exists>retryCode retryOut.
             spawn host (ytdlpCmd host) (retryArgs host url) = Closed retryCode retryOut retryErr
             \<and> retryCode \<noteq> Some 0"
  shows "fst (generateDownloadLink host url qlty fmt) =
     (if pinterestJsonFailure url errorOutput then Resolved demoUrl
      else if formatUnavailable errorOutput then
        (if isTikTokUrl url \<or> isInstagramUrl url then Resolved demoUrl
         else Rejected (''Download link generation failed after retry: ''
                        @ (if retryErr \<noteq> [] then retryErr else errorOutput)))
      else if isTikTokUrl url \<or> isInstagramUrl url \<or> signInRequired errorOutput
        then Resolved demoUrl
      else Rejected (''Download link generation failed: '' @ errorOutput))"
proof (cases "pinterestJsonFailure url errorOutput")
  case True
  with assms(3) obtain fallbackCode fallbackOutput fallbackErr where
    f: "spawn host (ytdlpCmd host) (fallbackArgs url) = Closed fallbackCode fallbackOutput fallbackErr"
    and "\<not> (fallbackCode = Some 0 \<and> trim host fallbackOutput \<noteq> [])"
    by blast
  then have nf: "(fallbackCode = Some 0 \<and> trim host fallbackOutput \<noteq> []) = False"
    by simp
  show ?thesis
    unfolding link_pinterest_fallback [OF assms(1,2) True f] nf using True by simp
next
  case False
  show ?thesis
  proof (cases "formatUnavailable errorOutput")
    case True
    with False assms(4) obtain retryCode retryOut where
      r: "spawn host (ytdlpCmd host) (retryArgs host url) = Closed retryCode retryOut retryErr"
      and "retryCode \<noteq> Some 0"
      by blast
    then show ?thesis
      unfolding link_retry [OF assms(1,2) False True r] using True False by simp
  next
    case nofmt: False
    show ?thesis
      unfolding link_no_retry [OF assms(1,2) False nofmt] using False nofmt by simp
  qed
qed

theorem generateDownloadLink_failure_outcome_witness:
  "fst (generateDownloadLink plainFailureHost ''https://vimeo.com/76979871'' ''720p HD'' ''mp4'')
     = Rejected ''Download link generation failed: Unable to download webpage''"
proof -
  let ?h = plainFailureHost and ?u = "''https://vimeo.com/76979871''"
  let ?e = "''Unable to download webpage''"
  have 1: "spawn ?h (ytdlpCmd ?h) (linkArgs ?h ?u ''720p HD'' ''mp4'') = Closed (Some 1) [] ?e"
    by (simp add: plainFailureHost_def link_eval)
  have 2: "Some (1::int) \<noteq> Some 0" by simp
  have p: "\<not> pinterestJsonFailure ?u ?e"
    by (simp add: text_eval)
  have f: "\<not> formatUnavailable ?e"
    by (simp add: text_eval)
  have s: "\<not> signInRequired ?e" "\<not> isTikTokUrl ?u" "\<not> isInstagramUrl ?u"
    by (simp_all add: text_eval link_eval)
  have 3: "pinterestJsonFailure ?u ?e \<Longrightarrow>
           \<exists>fallbackCode fallbackOutput fallbackErr.
             spawn ?h (ytdlpCmd ?h) (fallbackArgs ?u)
               = Closed fallbackCode fallbackOutput fallbackErr
             \<and> \<not> (fallbackCode = Some 0 \<and> trim ?h fallbackOutput \<noteq> [])"
    using p by simp
  have 4: "\<not> pinterestJsonFailure ?u ?e \<Longrightarrow> formatUnavailable ?e \<Longrightarrow>
           \<exists>retryCode retryOut.
             spawn ?h (ytdlpCmd ?h) (retryArgs ?h ?u) = Closed retryCode retryOut []
             \<and> retryCode \<noteq> Some 0"
    using f by simp
  show ?thesis
    using generateDownloadLink_failure_outcome [OF 1 2 3 4] p f s by simp
qed

text \<open>
  Claim C4 as stated fails in both directions. A Pinterest link, which is not among the
  platforms the claim names, resolves with the sample URL when its JSON-failure fallback
  fails; and a YouTube link with a sign-in signature in stderr is rejected when stderr
  also reports an unavailable format and the retry fails.
\<close>

theorem generateDownloadLink_failure_counterexample:
  "detectPlatform ''https://pin.it/3xYz'' = Inr ''Pinterest''
   \<and> spawn pinterestJsonHost (ytdlpCmd pinterestJsonHost)
         (linkArgs pinterestJsonHost ''https://pin.it/3xYz'' ''720p HD'' ''mp4'')
       = Closed (Some 1) [] ''Failed to parse JSON''
   \<and> spawn pinterestJsonHost (ytdlpCmd pinterestJsonHost) (fallbackArgs ''https://pin.it/3xYz'')
       = Closed (Some 1) [] ''Unsupported URL''
   \<and> generateDownloadLink pinterestJsonHost ''https://pin.it/3xYz'' ''720p HD'' ''mp4''
       = (Resolved demoUrl,
          [(''yt-dlp'', linkArgs pinterestJsonHost ''https://pin.it/3xYz'' ''720p HD'' ''mp4''),
           (''yt-dlp'', fallbackArgs ''https://pin.it/3xYz'')])
   \<and> detectPlatform ''https://youtu.be/abc123'' = Inr ''YouTube''
   \<and> spawn signInHost (ytdlpCmd signInHost)
         (linkArgs signInHost ''https://youtu.be/abc123'' ''720p HD'' ''mp4'')
       = Closed (Some 1) [] signInErr
   \<and> signInRequired signInErr
   \<and> spawn signInHost (ytdlpCmd signInHost) (retryArgs signInHost ''https://youtu.be/abc123'')
       = Closed (Some 1) [] ''Sign in to confirm''
   \<and> generateDownloadLink signInHost ''https://youtu.be/abc123'' ''720p HD'' ''mp4''
       = (Rejected (''Download link generation failed after retry: ''
                    @ ''Sign in to confirm''),
          [(''yt-dlp'', linkArgs signInHost ''https://youtu.be/abc123'' ''720p HD'' ''mp4''),
           (''yt-dlp'', retryArgs signInHost ''https://youtu.be/abc123'')])"
proof -
  let ?h = pinterestJsonHost and ?u = "''https://pin.it/3xYz''"
  let ?e = "''Failed to parse JSON''"
  let ?g = signInHost and ?y = "''https://youtu.be/abc123''"
  let ?r = "''Sign in to confirm''"
  have d1: "detectPlatform ?u = Inr ''Pinterest''"
    by (simp add: detectPlatform_def supportedPlatforms_def platformName_def)
  have d2: "detectPlatform ?y = Inr ''YouTube''"
    by (simp add: detectPlatform_def supportedPlatforms_def platformName_def)
  have c: "ytdlpCmd ?h = ''yt-dlp''" "ytdlpCmd ?g = ''yt-dlp''"
    by (simp_all add: pinterestJsonHost_def signInHost_def link_eval)
  have 1: "spawn ?h (ytdlpCmd ?h) (linkArgs ?h ?u ''720p HD'' ''mp4'') = Closed (Some 1) [] ?e"
    by (simp add: pinterestJsonHost_def link_eval)
  have 2: "Some (1::int) \<noteq> Some 0" by simp
  have 3: "pinterestJsonFailure ?u ?e"
    by (simp add: text_eval)
  have 4: "spawn ?h (ytdlpCmd ?h) (fallbackArgs ?u) = Closed (Some 1) [] ''Unsupported URL''"
    by (simp add: pinterestJsonHost_def link_eval)
  have a: "generateDownloadLink ?h ?u ''720p HD'' ''mp4''
       = (Resolved demoUrl,
          [(''yt-dlp'', linkArgs ?h ?u ''720p HD'' ''mp4''), (''yt-dlp'', fallbackArgs ?u)])"
    using link_pinterest_fallback [OF 1 2 3 4] unfolding c by simp
  have 5: "spawn ?g (ytdlpCmd ?g) (linkArgs ?g ?y ''720p HD'' ''mp4'') = Closed (Some 1) [] signInErr"
    by (simp add: signInHost_def link_eval)
  have 6: "signInRequired signInErr" "formatUnavailable signInErr"
    "\<not> pinterestJsonFailure ?y signInErr"
    by (simp_all add: signInErr_def text_eval)
  have 7: "spawn ?g (ytdlpCmd ?g) (retryArgs ?g ?y) = Closed (Some 1) [] ?r"
    by (simp add: signInHost_def link_eval)
  have n: "\<not> isTikTokUrl ?y" "\<not> isInstagramUrl ?y"
    by (simp_all add: link_eval)
  have b: "generateDownloadLink ?g ?y ''720p HD'' ''mp4''
       = (Rejected (''Download link generation failed after retry: '' @ ?r),
          [(''yt-dlp'', linkArgs ?g ?y ''720p HD'' ''mp4''), (''yt-dlp'', retryArgs ?g ?y)])"
    using link_retry [OF 5 2 6(3) 6(2) 7] n unfolding c by simp
  from d1 1 4 a d2 5 6(1) 7 b show ?thesis
    by blast
qed

section \<open>Properties of extractVideoInfo\<close>

lemma info_tool_failed:
  assumes "detectPlatform url = Inr p" "fastPath web url p = None"
    and "spawn host (ytdlpCmd host) (infoArgs host url) = Closed code output errorOutput"
    and "code \<noteq> Some 0"
  shows "extractVideoInfo host web url =
     (if signInRequired errorOutput then Resolved (youtubeDemoInfo p)
      else if socialBlocked host url errorOutput then Resolved (socialDemoInfo url p)
      else Rejected (''Video extraction failed: '' @ orElse errorOutput ''Unknown error''),
      [(ytdlpCmd host, infoArgs host url)])"
  using assms unfolding extractVideoInfo_def Let_def by simp

lemma demo_labelled:
  "str_includes (title (youtubeDemoInfo p)) ''(Demo Mode)''"
  "str_includes (title (socialDemoInfo url p)) ''(Demo Mode)''"
  by (simp_all add: youtubeDemoInfo_def socialDemoInfo_def socialPlatformName_def)

text \<open>
  Claim C5, amended. When the fast paths do not resolve and the tool exits non-zero,
  \<open>extractVideoInfo\<close> resolves with a result whose title carries \<open>(Demo Mode)\<close> if stderr
  contains \<open>Sign in to confirm\<close> or \<open>ERROR: [youtube]\<close>, or if the URL is a TikTok,
  Instagram or Pinterest URL and stderr contains \<open>HTTP Error 403\<close> or \<open>HTTP Error 401\<close>
  or, in lower case, one of \<open>login\<close>, \<open>forbidden\<close>, \<open>private\<close>, \<open>unavailable\<close>,
  \<open>not available\<close>, \<open>blocked\<close>; in every other case it rejects with the
  \<open>Video extraction failed\<close> error.
\<close>

theorem extractVideoInfo_failure_classified:
  assumes "detectPlatform url = Inr p" "fastPath web url p = None"
    and "spawn host (ytdlpCmd host) (infoArgs host url) = Closed code output errorOutput"
    and "code \<noteq> Some 0"
  shows "fst (extractVideoInfo host web url) =
     (if signInRequired errorOutput then Resolved (youtubeDemoInfo p)
      else if isSocialUrl url \<and> blockedSignature host errorOutput
        then Resolved (socialDemoInfo url p)
      else Rejected (''Video extraction failed: '' @ orElse errorOutput ''Unknown error''))
     \<and> str_includes (title (youtubeDemoInfo p)) ''(Demo Mode)''
     \<and> str_includes (title (socialDemoInfo url p)) ''(Demo Mode)''"
  unfolding info_tool_failed [OF assms] socialBlocked_def [symmetric]
  using demo_labelled by simp

theorem extractVideoInfo_failure_classified_witness:
  "fst (extractVideoInfo notAvailableHost offlineWeb ''https://www.tiktok.com/@u/video/7'')
     = Resolved (socialDemoInfo ''https://www.tiktok.com/@u/video/7'' ''TikTok'')"
proof -
  let ?h = notAvailableHost and ?u = "''https://www.tiktok.com/@u/video/7''"
  have d: "detectPlatform ?u = Inr ''TikTok''"
    by (simp add: detectPlatform_def supportedPlatforms_def platformName_def)
  have f: "fastPath offlineWeb ?u ''TikTok'' = None"
    by (simp add: fastPath_def scrapeProbe_def offlineWeb_def)
  have s: "spawn ?h (ytdlpCmd ?h) (infoArgs ?h ?u) = Closed (Some 1) [] notAvailableErr"
    by (simp add: notAvailableHost_def infoArgs_def link_eval)
  have c: "Some (1::int) \<noteq> Some 0" by simp
  have n: "\<not> signInRequired notAvailableErr"
    by (simp add: notAvailableErr_def signInRequired_def)
  have b: "isSocialUrl ?u" "blockedSignature ?h notAvailableErr"
    by (simp_all add: isSocialUrl_def isTikTokUrl_def blockedSignature_def notAvailableErr_def
        notAvailableHost_def plainHost_def asciiLower_def)
  show ?thesis
    using extractVideoInfo_failure_classified [OF d f s c] n b by simp
qed

text \<open>
  Claim C5 as stated fails in both directions on a TikTok URL. stderr
  \<open>Video not available\<close> contains none of the keywords the claim lists and no sign-in
  signature, yet the promise resolves with the demo result; stderr \<open>status code 403\<close>
  contains the listed keyword \<open>403\<close>, yet the promise rejects.
\<close>

theorem extractVideoInfo_failure_counterexample:
  "isTikTokUrl ''https://www.tiktok.com/@u/video/7''
   \<and> spawn notAvailableHost (ytdlpCmd notAvailableHost)
         (infoArgs notAvailableHost ''https://www.tiktok.com/@u/video/7'')
       = Closed (Some 1) [] notAvailableErr
   \<and> \<not> signInRequired notAvailableErr
   \<and> list_all (\<lambda>k. \<not> str_includes (map asciiLower notAvailableErr) k) claimedKeywords
   \<and> fst (extractVideoInfo notAvailableHost offlineWeb ''https://www.tiktok.com/@u/video/7'')
       = Resolved (socialDemoInfo ''https://www.tiktok.com/@u/video/7'' ''TikTok'')
   \<and> spawn status403Host (ytdlpCmd status403Host)
         (infoArgs status403Host ''https://www.tiktok.com/@u/video/7'')
       = Closed (Some 1) [] status403Err
   \<and> list_ex (\<lambda>k. str_includes status403Err k) claimedKeywords
   \<and> fst (extractVideoInfo status403Host offlineWeb ''https://www.tiktok.com/@u/video/7'')
       = Rejected (''Video extraction failed: '' @ status403Err)"
proof -
  let ?h = notAvailableHost and ?g = status403Host and ?u = "''https://www.tiktok.com/@u/video/7''"
  have t: "isTikTokUrl ?u"
    by (simp add: isTikTokUrl_def)
  have d: "detectPlatform ?u = Inr ''TikTok''"
    by (simp add: detectPlatform_def supportedPlatforms_def platformName_def)
  have f: "fastPath offlineWeb ?u ''TikTok'' = None"
    by (simp add: fastPath_def scrapeProbe_def offlineWeb_def)
  have c: "Some (1::int) \<noteq> Some 0" by simp
  have s1: "spawn ?h (ytdlpCmd ?h) (infoArgs ?h ?u) = Closed (Some 1) [] notAvailableErr"
    by (simp add: notAvailableHost_def infoArgs_def link_eval)
  have n1: "\<not> signInRequired notAvailableErr"
    by (simp add: notAvailableErr_def signInRequired_def)
  have k1: "list_all (\<lambda>k. \<not> str_includes (map asciiLower notAvailableErr) k) claimedKeywords"
    by (simp add: notAvailableErr_def claimedKeywords_def asciiLower_def)
  have b1: "socialBlocked ?h ?u notAvailableErr"
    by (simp add: socialBlocked_def isSocialUrl_def isTikTokUrl_def blockedSignature_def
        notAvailableErr_def notAvailableHost_def plainHost_def asciiLower_def)
  have r1: "fst (extractVideoInfo ?h offlineWeb ?u) = Resolved (socialDemoInfo ?u ''TikTok'')"
    unfolding info_tool_failed [OF d f s1 c] using n1 b1 by simp
  have s2: "spawn ?g (ytdlpCmd ?g) (infoArgs ?g ?u) = Closed (Some 1) [] status403Err"
    by (simp add: status403Host_def infoArgs_def link_eval)
  have n2: "\<not> signInRequired status403Err"
    by (simp add: status403Err_def signInRequired_def)
  have k2: "list_ex (\<lambda>k. str_includes status403Err k) claimedKeywords"
    by (simp add: status403Err_def claimedKeywords_def)
  have b2: "\<not> socialBlocked ?g ?u status403Err"
    by (simp add: socialBlocked_def blockedSignature_def
        status403Err_def status403Host_def plainHost_def asciiLower_def)
  have e2: "orElse status403Err ''Unknown error'' = status403Err"
    by (simp add: orElse_def status403Err_def)
  have r2: "fst (extractVideoInfo ?g offlineWeb ?u)
              = Rejected (''Video extraction failed: '' @ status403Err)"
    unfolding info_tool_failed [OF d f s2 c] using n2 b2 e2 by simp
  from t s1 n1 k1 r1 s2 k2 r2 show ?thesis
    by blast
qed





section \<open>Properties of the streaming handler\<close>

lemma guardedError_faults [simp]: "faults (guardedError code message s) = faults s"
  by (simp add: guardedError_def sendError_def)

lemma guardedError_sent:
  "headersSent s \<Longrightarrow> guardedError code message s = s"
  by (simp add: guardedError_def)

lemma logLine_fields [simp]:
  "faults (logLine l s) = faults s" "headersSent (logLine l s) = headersSent s"
  "response (logLine l s) = response s" "files (logLine l s) = files s"
  "outPath (logLine l s) = outPath s" "procOpen (logLine l s) = procOpen s"
  "readOpen (logLine l s) = readOpen s" "bodyOpen (logLine l s) = bodyOpen s"
  by (simp_all add: logLine_def response_def)

lemma step_faults: "faults (step s e) = faults s"
  by (cases e)
     (simp_all add: onProcError_def onProcClose_def onReadError_def onReadClose_def
        unlinkQuietly_def writeChunk_def endResponse_def setHeader_def Let_def
        split: option.splits)

lemma run_faults: "faults (run s events) = faults s"
  unfolding run_def by (induction events arbitrary: s) (simp_all add: step_faults)

lemma step_committed:
  assumes "headersSent s"
  shows "headersSent (step s e) \<and> statusCode (step s e) = statusCode s
         \<and> jsonBody (step s e) = jsonBody s"
  using assms
  by (cases e)
     (simp_all add: onProcError_def onProcClose_def onReadError_def onReadClose_def
        guardedError_sent unlinkQuietly_def writeChunk_def endResponse_def setHeader_def
        logLine_def Let_def split: option.splits)

lemma step_failure_logged:
  assumes "headersSent s" "isFailure e"
  shows "response (step s e) = response s"
  using assms
  by (cases e)
     (simp_all add: onProcError_def onProcClose_def onReadError_def
        guardedError_sent unlinkQuietly_def response_def logLine_def)

lemma run_snoc: "run s (pre @ [e]) = step (run s pre) e"
  by (simp add: run_def)

lemma setHeader_faults [simp]: "faults (setHeader name v s) = faults s"
  by (simp add: setHeader_def)

lemma catchStream_faults [simp]: "faults (catchStream message s) = faults s"
  by (simp add: catchStream_def)

lemma startTranscode_faults [simp]: "faults (startTranscode host sur req s) = faults s"
  by (simp add: startTranscode_def Let_def)

lemma relayHeaders_faults [simp]: "faults (relayHeaders sur req r x s) = faults s"
  by (simp add: relayHeaders_def Let_def)

lemma startRelay_faults [simp]: "faults (startRelay sur req u s) = faults s"
  by (simp add: startRelay_def Let_def split: sum.splits option.splits)

lemma streamVideo_faults: "faults (streamVideo host sur req fs) = 0"
proof -
  have fresh: "faults (freshStream fs) = 0" "\<not> headersSent (freshStream fs)"
    by (simp_all add: freshStream_def)
  then have "faults (sendError 400 ''Missing required parameters'' (freshStream fs)) = 0"
    by (simp add: sendError_def)
  with fresh show ?thesis
    unfolding streamVideo_def Let_def
    by (simp split: prod.splits Outcome.splits)
qed

text \<open>
  Claim C9. In every execution of the streaming handler no error response is attempted
  on a response whose headers are sent (every error write is made with \<open>headersSent\<close>
  false); once the headers are sent, no later event changes the status code or adds an
  error body; and a failure event (process error, non-zero exit, read error, upstream
  error) that arrives after the headers are sent leaves the whole response as it was: it
  is only logged.
\<close>

theorem stream_errors_only_before_headers:
  "faults (run (streamVideo host sur req fs) events) = 0
   \<and> (\<forall>pre e post.
         events = pre @ e # post \<and> headersSent (run (streamVideo host sur req fs) pre)
         \<longrightarrow> headersSent (run (streamVideo host sur req fs) (pre @ [e]))
             \<and> statusCode (run (streamVideo host sur req fs) (pre @ [e]))
                 = statusCode (run (streamVideo host sur req fs) pre)
             \<and> jsonBody (run (streamVideo host sur req fs) (pre @ [e]))
                 = jsonBody (run (streamVideo host sur req fs) pre)
             \<and> (isFailure e \<longrightarrow>
                  response (run (streamVideo host sur req fs) (pre @ [e]))
                    = response (run (streamVideo host sur req fs) pre)))"
proof (intro conjI allI impI)
  show "faults (run (streamVideo host sur req fs) events) = 0"
    by (simp add: run_faults streamVideo_faults)
next
  fix pre e post
  assume a: "events = pre @ e # post \<and> headersSent (run (streamVideo host sur req fs) pre)"
  let ?s = "run (streamVideo host sur req fs) pre"
  from a have sent: "headersSent ?s" by simp
  show "headersSent (run (streamVideo host sur req fs) (pre @ [e]))"
    unfolding run_snoc using step_committed [OF sent] by simp
  show "statusCode (run (streamVideo host sur req fs) (pre @ [e])) = statusCode ?s"
    unfolding run_snoc using step_committed [OF sent] by simp
  show "jsonBody (run (streamVideo host sur req fs) (pre @ [e])) = jsonBody ?s"
    unfolding run_snoc using step_committed [OF sent] by simp
  show "response (run (streamVideo host sur req fs) (pre @ [e])) = response ?s" if "isFailure e"
    unfolding run_snoc using step_failure_logged [OF sent that] .
qed

lemma audio_link:
  "generateDownloadLink linkOkHost ''https://vimeo.com/76979871'' ''Audio Only'' ''mp3''
     = (Resolved ''https://cdn.example/a.m4a'',
        [(''yt-dlp'', linkArgs linkOkHost ''https://vimeo.com/76979871'' ''Audio Only'' ''mp3'')])"
proof -
  let ?h = linkOkHost and ?u = "''https://vimeo.com/76979871''"
  have c: "ytdlpCmd ?h = ''yt-dlp''"
    by (simp add: linkOkHost_def link_eval)
  have s: "spawn ?h ''yt-dlp'' (linkArgs ?h ?u ''Audio Only'' ''mp3'')
             = Closed (Some 0) ''https://cdn.example/a.m4a'' []"
    by (simp add: linkOkHost_def link_eval)
  have t: "firstLine (trim ?h ''https://cdn.example/a.m4a'') = ''https://cdn.example/a.m4a''"
    by (simp add: linkOkHost_def plainHost_def text_eval)
  show ?thesis
    unfolding generateDownloadLink_def Let_def c s using t by simp
qed

lemma audio_transcodes: "transcodes linkOkHost audioRequest"
  by (simp add: transcodes_def audioRequest_def)

lemma audio_tempPath: "tempPath plainSurroundings audioRequest = ''/tmp/vidfetch-1-a.mp3''"
  by (simp add: tempPath_def plainSurroundings_def outExt_def audioRequest_def)

text \<open>The state in which the handler of the audio request returns.\<close>

lemma audio_start:
  "streamVideo linkOkHost plainSurroundings audioRequest fs
     = startTranscode linkOkHost plainSurroundings audioRequest
         (setHeader ''Cache-Control'' ''no-cache''
           (setHeader ''Access-Control-Allow-Headers'' ''*''
             (setHeader ''Access-Control-Allow-Origin'' ''*''
               (logLine (''Actual download URL obtained: '' @ take 50 ''https://cdn.example/a.m4a'' @ ''...'')
                 ((logLine (''Streaming video: '' @ ''https://vimeo.com/76979871'' @ '', quality: ''
                            @ ''Audio Only'' @ '', format: '' @ ''mp3'') (freshStream fs))
                    \<lparr>spawned := [(''yt-dlp'', linkArgs linkOkHost ''https://vimeo.com/76979871''
                                                ''Audio Only'' ''mp3'')]\<rparr>)))))"
  unfolding streamVideo_def Let_def
  using audio_link audio_transcodes
  by (simp add: audioRequest_def)

lemma audio_start_fields:
  "procOpen (streamVideo linkOkHost plainSurroundings audioRequest fs)"
  "\<not> readOpen (streamVideo linkOkHost plainSurroundings audioRequest fs)"
  "\<not> bodyOpen (streamVideo linkOkHost plainSurroundings audioRequest fs)"
  "\<not> headersSent (streamVideo linkOkHost plainSurroundings audioRequest fs)"
  "\<not> finished (streamVideo linkOkHost plainSurroundings audioRequest fs)"
  "outPath (streamVideo linkOkHost plainSurroundings audioRequest fs) = ''/tmp/vidfetch-1-a.mp3''"
  "files (streamVideo linkOkHost plainSurroundings audioRequest fs) = fs"
  "jsonBody (streamVideo linkOkHost plainSurroundings audioRequest fs) = None"
  "statusCode (streamVideo linkOkHost plainSurroundings audioRequest fs) = 200"
  unfolding audio_start
  by (simp_all add: startTranscode_def Let_def setHeader_def logLine_def freshStream_def
      audio_tempPath)

theorem stream_errors_only_before_headers_witness:
  "headersSent (run (streamVideo linkOkHost plainSurroundings audioRequest noFiles)
                  [ToolWrites ''abc'', ProcClose (Some 0), ReadData ''ab''])
   \<and> isFailure (ReadError ''EIO'')
   \<and> response (run (streamVideo linkOkHost plainSurroundings audioRequest noFiles)
                  ([ToolWrites ''abc'', ProcClose (Some 0), ReadData ''ab''] @ [ReadError ''EIO'']))
       = response (run (streamVideo linkOkHost plainSurroundings audioRequest noFiles)
                  [ToolWrites ''abc'', ProcClose (Some 0), ReadData ''ab''])
   \<and> statusCode (run (streamVideo linkOkHost plainSurroundings audioRequest noFiles)
                  [ToolWrites ''abc'', ProcClose (Some 0), ReadData ''ab'', ReadError ''EIO'']) = 200
   \<and> faults (run (streamVideo linkOkHost plainSurroundings audioRequest noFiles)
                 [ToolWrites ''abc'', ProcClose (Some 0), ReadData ''ab'', ReadError ''EIO'']) = 0"
proof -
  let ?init = "streamVideo linkOkHost plainSurroundings audioRequest noFiles"
  let ?pre = "[ToolWrites ''abc'', ProcClose (Some 0), ReadData ''ab'']"
  have sent: "headersSent (run ?init ?pre)" and code: "statusCode (run ?init ?pre) = 200"
    by (simp_all add: run_def audio_start_fields onProcClose_def Let_def setHeader_def
        writeChunk_def logLine_def)
  have split: "?pre @ [ReadError ''EIO''] = ?pre @ ReadError ''EIO'' # []"
    by simp
  from stream_errors_only_before_headers
         [of linkOkHost plainSurroundings audioRequest noFiles "?pre @ [ReadError ''EIO'']"]
  have all: "faults (run ?init (?pre @ [ReadError ''EIO''])) = 0"
    and step: "headersSent (run ?init ?pre)
       \<Longrightarrow> statusCode (run ?init (?pre @ [ReadError ''EIO''])) = statusCode (run ?init ?pre)
         \<and> (isFailure (ReadError ''EIO'') \<longrightarrow>
               response (run ?init (?pre @ [ReadError ''EIO''])) = response (run ?init ?pre))"
    using split by blast+
  from step [OF sent] code all show ?thesis
    using sent by simp
qed

lemma step_idle:
  assumes "\<not> procOpen s" "\<not> readOpen s" "\<not> bodyOpen s"
  shows "step s e = s"
  using assms by (cases e) simp_all

lemma run_idle:
  assumes "\<not> procOpen s" "\<not> readOpen s" "\<not> bodyOpen s"
  shows "run s events = s"
  unfolding run_def using assms by (induction events) (simp_all add: step_idle)

lemma run_append: "run s (xs @ ys) = run (run s xs) ys"
  by (simp add: run_def)

text \<open>
  Claim C1 does not hold of the code. In the transcode branch the tool writes its output
  file and then exits with code 1: the handler answers 500, registers no further listener
  and never unlinks the file, whatever happens afterwards.
\<close>

theorem transcode_failure_keeps_temp_file:
  "files (run (streamVideo linkOkHost plainSurroundings audioRequest noFiles)
            ([ToolWrites ''partial'', ProcClose (Some 1)] @ events))
     (tempPath plainSurroundings audioRequest) = Some ''partial''
   \<and> statusCode (run (streamVideo linkOkHost plainSurroundings audioRequest noFiles)
            ([ToolWrites ''partial'', ProcClose (Some 1)] @ events)) = 500
   \<and> \<not> procOpen (run (streamVideo linkOkHost plainSurroundings audioRequest noFiles)
            ([ToolWrites ''partial'', ProcClose (Some 1)] @ events))
   \<and> \<not> readOpen (run (streamVideo linkOkHost plainSurroundings audioRequest noFiles)
            ([ToolWrites ''partial'', ProcClose (Some 1)] @ events))"
proof -
  let ?init = "streamVideo linkOkHost plainSurroundings audioRequest noFiles"
  let ?s = "run ?init [ToolWrites ''partial'', ProcClose (Some 1)]"
  have idle: "\<not> procOpen ?s" "\<not> readOpen ?s" "\<not> bodyOpen ?s"
    by (simp_all add: run_def audio_start_fields onProcClose_def guardedError_def sendError_def
        logLine_def)
  have kept: "files ?s (tempPath plainSurroundings audioRequest) = Some ''partial''"
    by (simp add: run_def audio_start_fields audio_tempPath onProcClose_def guardedError_def
        sendError_def logLine_def)
  have code: "statusCode ?s = 500"
    by (simp add: run_def audio_start_fields onProcClose_def guardedError_def sendError_def
        logLine_def)
  have "run ?init ([ToolWrites ''partial'', ProcClose (Some 1)] @ events) = run ?s events"
    by (rule run_append)
  also have "\<dots> = ?s"
    using idle by (rule run_idle)
  finally show ?thesis
    using idle kept code by simp
qed

text \<open>The sibling path: after a successful run the read stream closes and the file is unlinked.\<close>

lemma transcode_success_removes_temp_file:
  "files (run (streamVideo linkOkHost plainSurroundings audioRequest noFiles)
            [ToolWrites ''abc'', ProcClose (Some 0), ReadData ''abc'', ReadEnd, ReadClose])
     (tempPath plainSurroundings audioRequest) = None"
  by (simp add: run_def audio_start_fields audio_tempPath onProcClose_def onReadClose_def
      unlinkQuietly_def writeChunk_def endResponse_def setHeader_def Let_def logLine_def)


end
